theory Spec2Isabelle
  imports Complex_Main "HOL-Library.Word"
begin

section \<open>Basic types\<close>

text \<open>
  C++ \<open>unsigned int\<close> is a 32-bit word: addition, subtraction and multiplication wrap
  around. Container sizes (\<open>size_t\<close>) are natural numbers; a size returned as
  \<open>unsigned int\<close> is truncated with \<open>of_nat\<close>. Ids are opaque identities.
  \<open>glm::vec3\<close> holds three floats; they are written as reals here, and no definition
  below computes with them.
\<close>

type_synonym uint = "32 word"
type_synonym ident = nat

datatype vec3 = Vec3 real real real
datatype Triangle = Triangle vec3 vec3 vec3
datatype PrimRay = PrimRay vec3 vec3

text \<open>
  A failed \<open>assert\<close> aborts the program; an operation whose behaviour C++ leaves
  undefined (removing from an empty container) is a failure of its own.
\<close>

datatype error = AssertionFailed | UndefinedBehaviour

section \<open>Collaborators of the mesh\<close>

subsection \<open>The render buffer (class Mesh)\<close>

text \<open>
  Modelled from the spec: the class \<open>Mesh\<close> (mesh.hpp, the render buffer) is not part of
  the sources. It owns flat arrays of vertex positions, vertex normals and triangle
  indices. A vertex is an index into the position and the normal array, so both grow and
  shrink together.
\<close>

record Mesh =
  positions :: "vec3 list"
  normals :: "vec3 list"
  indices :: "uint list"

text \<open>Modelled from the spec: a freshly constructed or reset render buffer is empty.\<close>

definition Mesh_reset :: "Mesh \<Rightarrow> Mesh" where
  "Mesh_reset b = \<lparr>positions = [], normals = [], indices = []\<rparr>"

text \<open>Modelled from the spec: the counts of the render buffer, as \<open>unsigned int\<close>.\<close>

definition Mesh_numVertices :: "Mesh \<Rightarrow> uint" where
  "Mesh_numVertices b = of_nat (length (positions b))"

definition Mesh_numIndices :: "Mesh \<Rightarrow> uint" where
  "Mesh_numIndices b = of_nat (length (indices b))"

text \<open>
  Modelled from the spec: \<open>addVertex(pos) -> index\<close> appends a position (with a zero
  normal beside it) and returns its index.
\<close>

definition Mesh_addVertex :: "vec3 \<Rightarrow> Mesh \<Rightarrow> uint \<times> Mesh" where
  "Mesh_addVertex v b =
     (of_nat (length (positions b)),
      b\<lparr>positions := positions b @ [v], normals := normals b @ [Vec3 0 0 0]\<rparr>)"

text \<open>
  Modelled from the spec: \<open>popVertex()\<close> removes the last vertex. Removing from an empty
  buffer is undefined.
\<close>

definition Mesh_popVertex :: "Mesh \<Rightarrow> error + Mesh" where
  "Mesh_popVertex b =
     (if positions b = [] then Inl UndefinedBehaviour
      else Inr (b\<lparr>positions := butlast (positions b), normals := butlast (normals b)\<rparr>))"

text \<open>
  Modelled from the spec: \<open>allocateIndices(n)\<close> appends \<open>n\<close> slots. Their content is not
  initialised by the caller; a \<open>std::vector\<close> fills them with zero.
\<close>

definition Mesh_allocateIndices :: "uint \<Rightarrow> Mesh \<Rightarrow> Mesh" where
  "Mesh_allocateIndices n b = b\<lparr>indices := indices b @ replicate (unat n) 0\<rparr>"

text \<open>
  Modelled from the spec: \<open>resizeIndices(n)\<close> grows or shrinks the index array to exactly
  \<open>n\<close> slots and preserves the prefix.
\<close>

definition Mesh_resizeIndices :: "uint \<Rightarrow> Mesh \<Rightarrow> Mesh" where
  "Mesh_resizeIndices n b =
     b\<lparr>indices := take (unat n) (indices b) @ replicate (unat n - length (indices b)) 0\<rparr>"

text \<open>
  Modelled from the spec: \<open>popIndices(n)\<close> shrinks the index array by \<open>n\<close> from the tail.
  Shrinking by more than the array holds is undefined.
\<close>

definition Mesh_popIndices :: "uint \<Rightarrow> Mesh \<Rightarrow> error + Mesh" where
  "Mesh_popIndices n b =
     (if length (indices b) < unat n then Inl UndefinedBehaviour
      else Inr (b\<lparr>indices := take (length (indices b) - unat n) (indices b)\<rparr>))"

text \<open>
  Modelled from the spec: \<open>setIndex(slot, value)\<close> and \<open>setNormal(index, value)\<close>
  overwrite an existing entry; "index must exist" is a precondition checked by assertion.
\<close>

definition Mesh_setIndex :: "uint \<Rightarrow> uint \<Rightarrow> Mesh \<Rightarrow> error + Mesh" where
  "Mesh_setIndex indexNumber index b =
     (if unat indexNumber < length (indices b)
      then Inr (b\<lparr>indices := (indices b)[unat indexNumber := index]\<rparr>)
      else Inl AssertionFailed)"

definition Mesh_setNormal :: "uint \<Rightarrow> vec3 \<Rightarrow> Mesh \<Rightarrow> error + Mesh" where
  "Mesh_setNormal index n b =
     (if unat index < length (normals b)
      then Inr (b\<lparr>normals := (normals b)[unat index := n]\<rparr>)
      else Inl AssertionFailed)"

text \<open>
  Modelled from the spec: \<open>bufferData()\<close> uploads the current contents to the render
  target; the arrays on the host side stay as they are.
\<close>

definition Mesh_bufferData :: "Mesh \<Rightarrow> Mesh" where
  "Mesh_bufferData b = b"

subsection \<open>Vertices, edges and faces\<close>

text \<open>
  Modelled from the spec: the classes \<open>WingedVertex\<close>, \<open>WingedEdge\<close> and \<open>WingedFace\<close>
  are not part of the sources. A vertex is an index into the render buffer and a
  reference to one incident edge; an edge has the fields that \<open>addEdge\<close> copies; a face
  has a boundary edge, an id and its first index number. A pointer to an edge or a face
  is the id of its target (\<open>None\<close> for \<open>nullptr\<close>), a pointer to a vertex is its index.
\<close>

record WingedVertex =
  vertexIndex :: uint
  vertexEdge :: "ident option"

record WingedEdge =
  vertex1 :: "uint option"
  vertex2 :: "uint option"
  leftFace :: "ident option"
  rightFace :: "ident option"
  leftPredecessor :: "ident option"
  leftSuccessor :: "ident option"
  rightPredecessor :: "ident option"
  rightSuccessor :: "ident option"
  previousSibling :: "ident option"
  nextSibling :: "ident option"
  edgeId :: ident
  isTEdge :: bool
  faceGradient :: int
  vertexGradient :: int

record WingedFace =
  faceEdge :: "ident option"
  faceId :: ident
  firstIndexNumber :: uint

subsection \<open>The spatial index (class Octree)\<close>

text \<open>
  Modelled from the spec: the class \<open>Octree\<close> is not part of the sources. It is the
  store of the faces, each with its triangle geometry. The list \<open>faces\<close> holds the stored
  faces in the fixed order of the traversal \<open>forEachFace\<close>; \<open>root\<close> is the bounding
  region that \<open>initRoot\<close> sets.
\<close>

record Octree =
  root :: "(vec3 \<times> real) option"
  faces :: "(WingedFace \<times> Triangle) list"

text \<open>Modelled from the spec: \<open>reset()\<close> clears all nodes.\<close>

definition Octree_reset :: "Octree \<Rightarrow> Octree" where
  "Octree_reset t = \<lparr>root = None, faces = []\<rparr>"


text \<open>
  Modelled from the spec: \<open>insertFace(face, geometry) -> Face&\<close> stores a new face record
  with its triangle geometry and returns the stored face.
\<close>

definition Octree_insertFace :: "WingedFace \<Rightarrow> Triangle \<Rightarrow> Octree \<Rightarrow> WingedFace \<times> Octree" where
  "Octree_insertFace f geometry t = (f, t\<lparr>faces := faces t @ [(f, geometry)]\<rparr>)"

text \<open>
  Modelled from the spec: \<open>deleteFace(face)\<close> removes a face by identity. The argument is
  a reference to a stored face, here the stored record itself: the first entry that holds
  it is removed. A face that is not stored violates the precondition.
\<close>

fun removeFace :: "WingedFace \<Rightarrow> (WingedFace \<times> Triangle) list \<Rightarrow> (WingedFace \<times> Triangle) list" where
  "removeFace f [] = []"
| "removeFace f (e # es) = (if fst e = f then es else e # removeFace f es)"

definition Octree_deleteFace :: "WingedFace \<Rightarrow> Octree \<Rightarrow> error + Octree" where
  "Octree_deleteFace f t =
     (if f \<in> fst ` set (faces t) then Inr (t\<lparr>faces := removeFace f (faces t)\<rparr>)
      else Inl AssertionFailed)"

text \<open>Modelled from the spec: \<open>numFaces() -> count\<close>, as \<open>unsigned int\<close>.\<close>

definition Octree_numFaces :: "Octree \<Rightarrow> uint" where
  "Octree_numFaces t = of_nat (length (faces t))"

text \<open>Modelled from the spec: \<open>face(id) -> Face*\<close> is a nullable lookup by id.\<close>

definition Octree_face :: "ident \<Rightarrow> Octree \<Rightarrow> WingedFace option" where
  "Octree_face i t = find (\<lambda>f. faceId f = i) (map fst (faces t))"

section \<open>WingedMesh::Impl (src/winged/mesh.cpp)\<close>

record WingedMesh =
  meshId :: ident
  mesh :: Mesh
  vertices :: "WingedVertex list"
  edges :: "WingedEdge list"
  octree :: Octree
  freeFirstIndexNumbers :: "uint set"

text \<open>The constructor \<open>Impl (WingedMesh* s, const Id& i)\<close>: every container starts empty.\<close>

definition WingedMesh_Impl :: "ident \<Rightarrow> WingedMesh" where
  "WingedMesh_Impl i =
     \<lparr>meshId = i, mesh = \<lparr>positions = [], normals = [], indices = []\<rparr>, vertices = [],
      edges = [], octree = \<lparr>root = None, faces = []\<rparr>, freeFirstIndexNumbers = {}\<rparr>"

fun vertexSLOW_scan :: "uint \<Rightarrow> WingedVertex list \<Rightarrow> WingedVertex option" where
  "vertexSLOW_scan i [] = None"
| "vertexSLOW_scan i (v # vs) = (if vertexIndex v = i then Some v else vertexSLOW_scan i vs)"

definition vertexSLOW :: "uint \<Rightarrow> WingedMesh \<Rightarrow> WingedVertex option" where
  "vertexSLOW i m = vertexSLOW_scan i (vertices m)"

fun edgeSLOW_scan :: "ident \<Rightarrow> WingedEdge list \<Rightarrow> WingedEdge option" where
  "edgeSLOW_scan i [] = None"
| "edgeSLOW_scan i (e # es) = (if edgeId e = i then Some e else edgeSLOW_scan i es)"

definition edgeSLOW :: "ident \<Rightarrow> WingedMesh \<Rightarrow> WingedEdge option" where
  "edgeSLOW i m = edgeSLOW_scan i (edges m)"

definition face :: "ident \<Rightarrow> WingedMesh \<Rightarrow> WingedFace option" where
  "face i m = Octree_face i (octree m)"

definition addVertex :: "vec3 \<Rightarrow> WingedMesh \<Rightarrow> WingedVertex \<times> WingedMesh" where
  "addVertex v m =
     (let (index, b) = Mesh_addVertex v (mesh m);
          w = \<lparr>vertexIndex = index, vertexEdge = None\<rparr>
      in (w, m\<lparr>mesh := b, vertices := vertices m @ [w]\<rparr>))"


definition numIndices :: "WingedMesh \<Rightarrow> uint" where
  "numIndices m = Mesh_numIndices (mesh m)"

definition numFaces :: "WingedMesh \<Rightarrow> uint" where
  "numFaces m = Octree_numFaces (octree m)"

definition numEdges :: "WingedMesh \<Rightarrow> uint" where
  "numEdges m = of_nat (length (edges m))"

definition numVertices :: "WingedMesh \<Rightarrow> error + uint" where
  "numVertices m =
     (if unat (Mesh_numVertices (mesh m)) = length (vertices m)
      then Inr (of_nat (length (vertices m)))
      else Inl AssertionFailed)"

definition isEmpty :: "WingedMesh \<Rightarrow> error + bool" where
  "isEmpty m =
     (case numVertices m of
        Inl e \<Rightarrow> Inl e
      | Inr n \<Rightarrow> Inr (n = 0 \<and> numFaces m = 0 \<and> numIndices m = 0))"

definition hasFreeFirstIndexNumber :: "WingedMesh \<Rightarrow> bool" where
  "hasFreeFirstIndexNumber m = (card (freeFirstIndexNumbers m) > 0)"

definition nextFreeFirstIndexNumber :: "WingedMesh \<Rightarrow> error + uint \<times> WingedMesh" where
  "nextFreeFirstIndexNumber m =
     (if hasFreeFirstIndexNumber m
      then (let indexNumber = Min (freeFirstIndexNumbers m)
            in Inr (indexNumber,
                    m\<lparr>freeFirstIndexNumbers := freeFirstIndexNumbers m - {indexNumber}\<rparr>))
      else Inl AssertionFailed)"

definition addFace :: "WingedFace \<Rightarrow> Triangle \<Rightarrow> WingedMesh \<Rightarrow> error + WingedFace \<times> WingedMesh" where
  "addFace f geometry m =
     (case (if hasFreeFirstIndexNumber m
            then nextFreeFirstIndexNumber m
            else Inr (Mesh_numIndices (mesh m),
                      m\<lparr>mesh := Mesh_allocateIndices 3 (mesh m)\<rparr>)) of
        Inl e \<Rightarrow> Inl e
      | Inr (fin, m1) \<Rightarrow>
          (let (stored, t) =
                 Octree_insertFace
                   \<lparr>faceEdge = faceEdge f, faceId = faceId f, firstIndexNumber = fin\<rparr>
                   geometry (octree m1)
           in Inr (stored, m1\<lparr>octree := t\<rparr>)))"

definition deleteFace :: "WingedFace \<Rightarrow> WingedMesh \<Rightarrow> error + WingedMesh" where
  "deleteFace f m =
     (case (if firstIndexNumber f = Mesh_numIndices (mesh m) - 3
            then (case Mesh_popIndices 3 (mesh m) of
                    Inl e \<Rightarrow> Inl e
                  | Inr b \<Rightarrow> Inr (m\<lparr>mesh := b\<rparr>))
            else Inr (m\<lparr>freeFirstIndexNumbers :=
                          insert (firstIndexNumber f) (freeFirstIndexNumbers m)\<rparr>)) of
        Inl e \<Rightarrow> Inl e
      | Inr m1 \<Rightarrow>
          (case Octree_deleteFace f (octree m1) of
             Inl e \<Rightarrow> Inl e
           | Inr t \<Rightarrow> Inr (m1\<lparr>octree := t\<rparr>)))"

definition popVertex :: "WingedMesh \<Rightarrow> error + WingedMesh" where
  "popVertex m =
     (case Mesh_popVertex (mesh m) of
        Inl e \<Rightarrow> Inl e
      | Inr b \<Rightarrow>
          (if vertices m = [] then Inl UndefinedBehaviour
           else Inr (m\<lparr>mesh := b, vertices := butlast (vertices m)\<rparr>)))"

definition reset :: "WingedMesh \<Rightarrow> WingedMesh" where
  "reset m =
     m\<lparr>mesh := Mesh_reset (mesh m), vertices := [], edges := [],
       octree := Octree_reset (octree m)\<rparr>"


subsection \<open>Writing the buffers\<close>

text \<open>
  Modelled from the spec: \<open>forEachFace(callback)\<close> visits every stored face exactly once
  in the fixed traversal order. The callback gets a mutable reference to the face and
  works on the state \<open>'s\<close> it has captured; a failure inside the callback ends the run.
\<close>

fun forEachFace_loop ::
  "('s \<Rightarrow> WingedFace \<Rightarrow> error + 's \<times> WingedFace) \<Rightarrow> 's \<Rightarrow> (WingedFace \<times> Triangle) list
     \<Rightarrow> error + 's \<times> (WingedFace \<times> Triangle) list" where
  "forEachFace_loop cb s [] = Inr (s, [])"
| "forEachFace_loop cb s ((f, g) # rest) =
     (case cb s f of
        Inl e \<Rightarrow> Inl e
      | Inr (s1, f1) \<Rightarrow>
          (case forEachFace_loop cb s1 rest of
             Inl e \<Rightarrow> Inl e
           | Inr (s2, rest1) \<Rightarrow> Inr (s2, (f1, g) # rest1)))"

definition Octree_forEachFace ::
  "('s \<Rightarrow> WingedFace \<Rightarrow> error + 's \<times> WingedFace) \<Rightarrow> 's \<Rightarrow> Octree \<Rightarrow> error + 's \<times> Octree" where
  "Octree_forEachFace cb s t =
     (case forEachFace_loop cb s (faces t) of
        Inl e \<Rightarrow> Inl e
      | Inr (s1, fs) \<Rightarrow> Inr (s1, t\<lparr>faces := fs\<rparr>))"

text \<open>
  Modelled from the spec: \<open>WingedFace::writeIndices(mesh, newFIN)\<close> is not part of the
  sources. The face takes the new first index number when one is given, and writes its
  3 vertex indices to the slots starting at its first index number (through
  \<open>WingedMesh::setIndex\<close>, which forwards to \<open>Mesh::setIndex\<close>). Which vertices a face
  has is found by walking its edge cycle, also outside the sources: the parameter \<open>av\<close>
  gives them by the id of the face.
\<close>

definition WingedFace_writeIndices ::
  "(ident \<Rightarrow> uint \<times> uint \<times> uint) \<Rightarrow> uint option \<Rightarrow> WingedFace \<Rightarrow> Mesh \<Rightarrow> error + Mesh \<times> WingedFace" where
  "WingedFace_writeIndices av newFIN f b =
     (let f1 = (case newFIN of None \<Rightarrow> f | Some n \<Rightarrow> f\<lparr>firstIndexNumber := n\<rparr>);
          indexNumber = firstIndexNumber f1;
          (i0, i1, i2) = av (faceId f)
      in case Mesh_setIndex indexNumber i0 b of
           Inl e \<Rightarrow> Inl e
         | Inr b1 \<Rightarrow>
            (case Mesh_setIndex (indexNumber + 1) i1 b1 of
               Inl e \<Rightarrow> Inl e
             | Inr b2 \<Rightarrow>
                (case Mesh_setIndex (indexNumber + 2) i2 b2 of
                   Inl e \<Rightarrow> Inl e
                 | Inr b3 \<Rightarrow> Inr (b3, f1))))"

text \<open>
  Modelled from the spec: \<open>WingedVertex::writeNormal(mesh)\<close> is not part of the sources.
  It writes the normal of the vertex, computed from the geometry of its incident faces
  (the parameter \<open>nrm\<close>), into the render buffer.
\<close>

definition WingedVertex_writeNormal :: "(WingedVertex \<Rightarrow> vec3) \<Rightarrow> WingedVertex \<Rightarrow> Mesh \<Rightarrow> error + Mesh" where
  "WingedVertex_writeNormal nrm v b = Mesh_setNormal (vertexIndex v) (nrm v) b"

definition writeIndices :: "(ident \<Rightarrow> uint \<times> uint \<times> uint) \<Rightarrow> WingedMesh \<Rightarrow> error + WingedMesh" where
  "writeIndices av m =
     (if card (freeFirstIndexNumbers m) > 0
      then (case Octree_forEachFace
                   (\<lambda>(b, fin) f.
                      case WingedFace_writeIndices av (Some fin) f b of
                        Inl e \<Rightarrow> Inl e
                      | Inr (b1, f1) \<Rightarrow> Inr ((b1, fin + 3), f1))
                   (Mesh_resizeIndices (numFaces m * 3) (mesh m), 0) (octree m) of
              Inl e \<Rightarrow> Inl e
            | Inr ((b, fin), t) \<Rightarrow>
                Inr (m\<lparr>mesh := b, octree := t, freeFirstIndexNumbers := {}\<rparr>))
      else (case Octree_forEachFace (\<lambda>b f. WingedFace_writeIndices av None f b)
                   (mesh m) (octree m) of
              Inl e \<Rightarrow> Inl e
            | Inr (b, t) \<Rightarrow> Inr (m\<lparr>mesh := b, octree := t\<rparr>)))"

fun writeNormals_loop :: "(WingedVertex \<Rightarrow> vec3) \<Rightarrow> WingedVertex list \<Rightarrow> Mesh \<Rightarrow> error + Mesh" where
  "writeNormals_loop nrm [] b = Inr b"
| "writeNormals_loop nrm (v # vs) b =
     (case WingedVertex_writeNormal nrm v b of
        Inl e \<Rightarrow> Inl e
      | Inr b1 \<Rightarrow> writeNormals_loop nrm vs b1)"

definition writeNormals :: "(WingedVertex \<Rightarrow> vec3) \<Rightarrow> WingedMesh \<Rightarrow> error + WingedMesh" where
  "writeNormals nrm m =
     (case writeNormals_loop nrm (vertices m) (mesh m) of
        Inl e \<Rightarrow> Inl e
      | Inr b \<Rightarrow> Inr (m\<lparr>mesh := b\<rparr>))"

text \<open>The method \<open>write()\<close>; its name is reserved in Isabelle, hence the suffix.\<close>

definition write_buffers ::
  "(ident \<Rightarrow> uint \<times> uint \<times> uint) \<Rightarrow> (WingedVertex \<Rightarrow> vec3) \<Rightarrow> WingedMesh \<Rightarrow> error + WingedMesh" where
  "write_buffers av nrm m =
     (case writeIndices av m of
        Inl e \<Rightarrow> Inl e
      | Inr m1 \<Rightarrow> writeNormals nrm m1)"

definition bufferData :: "WingedMesh \<Rightarrow> error + WingedMesh" where
  "bufferData m =
     (if card (freeFirstIndexNumbers m) = 0
      then Inr (m\<lparr>mesh := Mesh_bufferData (mesh m)\<rparr>)
      else Inl AssertionFailed)"

definition writeAndBuffer ::
  "(ident \<Rightarrow> uint \<times> uint \<times> uint) \<Rightarrow> (WingedVertex \<Rightarrow> vec3) \<Rightarrow> WingedMesh \<Rightarrow> error + WingedMesh" where
  "writeAndBuffer av nrm m =
     (case write_buffers av nrm m of
        Inl e \<Rightarrow> Inl e
      | Inr m1 \<Rightarrow> bufferData m1)"

subsection \<open>Ray intersection\<close>

text \<open>
  Modelled from the spec: the class \<open>WingedFaceIntersection\<close> is not part of the sources.
  It is the output parameter of a ray query: whether a hit has been recorded and, for the
  recorded hit, its distance along the ray, its position, its mesh and its face. A newly
  constructed intersection holds no hit.
\<close>

record WingedFaceIntersection =
  isIntersection :: bool
  distance :: real
  position :: vec3
  hitMesh :: ident
  hitFace :: ident

definition WingedFaceIntersection_new :: WingedFaceIntersection where
  "WingedFaceIntersection_new =
     \<lparr>isIntersection = False, distance = 0, position = Vec3 0 0 0, hitMesh = 0, hitFace = 0\<rparr>"

text \<open>
  Modelled from the spec: the closest hit is recorded, so a hit replaces the recorded one
  when nothing is recorded yet or when it is nearer.
\<close>

definition WingedFaceIntersection_update ::
  "real \<Rightarrow> vec3 \<Rightarrow> ident \<Rightarrow> ident \<Rightarrow> WingedFaceIntersection \<Rightarrow> WingedFaceIntersection" where
  "WingedFaceIntersection_update d p mi fi i =
     (if \<not> isIntersection i \<or> d < distance i
      then \<lparr>isIntersection = True, distance = d, position = p, hitMesh = mi, hitFace = fi\<rparr>
      else i)"

text \<open>
  Modelled from the spec: \<open>Octree::intersects(mesh, ray, outIntersection) -> bool\<close>
  performs the exact ray-triangle test against the stored geometry of each face, records
  the closest hit into \<open>outIntersection\<close> and returns whether any hit occurred. The
  ray-triangle test computes with floats and is the parameter \<open>hit\<close>: the distance and
  the position of the hit, or \<open>None\<close> for a miss. The query changes nothing in the octree.
\<close>

fun Octree_intersects_loop ::
  "(PrimRay \<Rightarrow> Triangle \<Rightarrow> (real \<times> vec3) option) \<Rightarrow> ident \<Rightarrow> PrimRay
     \<Rightarrow> (WingedFace \<times> Triangle) list \<Rightarrow> WingedFaceIntersection \<Rightarrow> bool \<times> WingedFaceIntersection" where
  "Octree_intersects_loop hit mi ray [] i = (False, i)"
| "Octree_intersects_loop hit mi ray ((f, g) # rest) i =
     (case hit ray g of
        None \<Rightarrow> Octree_intersects_loop hit mi ray rest i
      | Some (d, p) \<Rightarrow>
          (True, snd (Octree_intersects_loop hit mi ray rest
                        (WingedFaceIntersection_update d p mi (faceId f) i))))"

definition Octree_intersects ::
  "(PrimRay \<Rightarrow> Triangle \<Rightarrow> (real \<times> vec3) option) \<Rightarrow> ident \<Rightarrow> PrimRay
     \<Rightarrow> WingedFaceIntersection \<Rightarrow> Octree \<Rightarrow> bool \<times> WingedFaceIntersection" where
  "Octree_intersects hit mi ray i t = Octree_intersects_loop hit mi ray (faces t) i"

text \<open>\<open>WingedMesh::Impl::intersects (const Ray&, WingedFaceIntersection&)\<close>.\<close>

definition intersects ::
  "(PrimRay \<Rightarrow> Triangle \<Rightarrow> (real \<times> vec3) option) \<Rightarrow> PrimRay \<Rightarrow> WingedFaceIntersection
     \<Rightarrow> WingedMesh \<Rightarrow> bool \<times> WingedFaceIntersection" where
  "intersects hit ray i m = Octree_intersects hit (meshId m) ray i (octree m)"

section \<open>Scene::Impl (lib/src/scene.cpp)\<close>

text \<open>
  Of the scene, the list of winged meshes and the selection mode; the sphere meshes, the
  id maps and the selection take no part in the ray query for faces.
\<close>

datatype SelectionMode = Freeform | SphereNode

record Scene =
  wingedMeshes :: "WingedMesh list"
  selectionMode :: SelectionMode

fun Scene_intersects_loop ::
  "(PrimRay \<Rightarrow> Triangle \<Rightarrow> (real \<times> vec3) option) \<Rightarrow> PrimRay \<Rightarrow> WingedMesh list
     \<Rightarrow> WingedFaceIntersection \<Rightarrow> WingedFaceIntersection" where
  "Scene_intersects_loop hit ray [] i = i"
| "Scene_intersects_loop hit ray (m # ms) i =
     Scene_intersects_loop hit ray ms (snd (intersects hit ray i m))"

text \<open>\<open>Scene::Impl::intersects (SelectionMode, const PrimRay&, WingedFaceIntersection&)\<close>.\<close>

definition Scene_intersects_mode ::
  "(PrimRay \<Rightarrow> Triangle \<Rightarrow> (real \<times> vec3) option) \<Rightarrow> SelectionMode \<Rightarrow> PrimRay
     \<Rightarrow> WingedFaceIntersection \<Rightarrow> Scene \<Rightarrow> bool \<times> WingedFaceIntersection" where
  "Scene_intersects_mode hit t ray i s =
     (let i1 = (if t = Freeform then Scene_intersects_loop hit ray (wingedMeshes s) i else i)
      in (isIntersection i1, i1))"

text \<open>\<open>Scene::Impl::intersects (const PrimRay&, WingedFaceIntersection&)\<close>.\<close>

definition Scene_intersects ::
  "(PrimRay \<Rightarrow> Triangle \<Rightarrow> (real \<times> vec3) option) \<Rightarrow> PrimRay \<Rightarrow> WingedFaceIntersection
     \<Rightarrow> Scene \<Rightarrow> bool \<times> WingedFaceIntersection" where
  "Scene_intersects hit ray i s = Scene_intersects_mode hit (selectionMode s) ray i s"

text \<open>Some face of the mesh, or of some mesh of the scene, is hit by the ray.\<close>

definition meshHit :: "(PrimRay \<Rightarrow> Triangle \<Rightarrow> (real \<times> vec3) option) \<Rightarrow> PrimRay \<Rightarrow> WingedMesh \<Rightarrow> bool" where
  "meshHit hit ray m = list_ex (\<lambda>(f, g). hit ray g \<noteq> None) (faces (octree m))"

definition sceneHit :: "(PrimRay \<Rightarrow> Triangle \<Rightarrow> (real \<times> vec3) option) \<Rightarrow> PrimRay \<Rightarrow> Scene \<Rightarrow> bool" where
  "sceneHit hit ray s = list_ex (meshHit hit ray) (wingedMeshes s)"

subsection \<open>Sequences of vertex operations\<close>

datatype vertexOp = AddVertex vec3 | PopVertex

fun runVertexOps :: "vertexOp list \<Rightarrow> WingedMesh \<Rightarrow> error + WingedMesh" where
  "runVertexOps [] m = Inr m"
| "runVertexOps (AddVertex v # ops) m = runVertexOps ops (snd (addVertex v m))"
| "runVertexOps (PopVertex # ops) m =
     (case popVertex m of
        Inl e \<Rightarrow> Inl e
      | Inr m1 \<Rightarrow> runVertexOps ops m1)"

text \<open>
  No \<open>PopVertex\<close> of the sequence meets a mesh without vertices, when the mesh has \<open>n\<close>
  vertices before the sequence.
\<close>

fun popsAllowed :: "nat \<Rightarrow> vertexOp list \<Rightarrow> bool" where
  "popsAllowed n [] = True"
| "popsAllowed n (AddVertex v # ops) = popsAllowed (Suc n) ops"
| "popsAllowed n (PopVertex # ops) = (0 < n \<and> popsAllowed (n - 1) ops)"

subsection \<open>Sequences of face operations\<close>

text \<open>
  A caller deletes a face it holds a reference to; in a sequence of operations the face
  is named by its id and found with \<open>face (id)\<close>. Dereferencing the null result of a
  miss is undefined.
\<close>

datatype faceOp = AddFace WingedFace Triangle | DeleteFace ident

fun runFaceOp :: "faceOp \<Rightarrow> WingedMesh \<Rightarrow> error + WingedMesh" where
  "runFaceOp (AddFace f g) m =
     (case addFace f g m of
        Inl e \<Rightarrow> Inl e
      | Inr (stored, m1) \<Rightarrow> Inr m1)"
| "runFaceOp (DeleteFace i) m =
     (case face i m of
        None \<Rightarrow> Inl UndefinedBehaviour
      | Some f \<Rightarrow> deleteFace f m)"

fun runFaceOps :: "faceOp list \<Rightarrow> WingedMesh \<Rightarrow> error + WingedMesh" where
  "runFaceOps [] m = Inr m"
| "runFaceOps (x # ops) m =
     (case runFaceOp x m of
        Inl e \<Rightarrow> Inl e
      | Inr m1 \<Rightarrow> runFaceOps ops m1)"

section \<open>Consistency of the index slots\<close>

text \<open>
  The index buffer is a sequence of triples. In a consistent mesh the size of the buffer
  fits an \<open>unsigned int\<close>, every free offset and every first index number of a stored
  face is the start of a triple inside the buffer, no stored face uses a free offset,
  and no two stored faces use the same offset.
\<close>

definition slotsValid :: "WingedMesh \<Rightarrow> bool" where
  "slotsValid m \<longleftrightarrow>
     length (indices (mesh m)) < 2 ^ 32 \<and> 3 dvd length (indices (mesh m))
     \<and> (\<forall>x \<in> freeFirstIndexNumbers m.
           3 dvd unat x \<and> unat x + 3 \<le> length (indices (mesh m)))
     \<and> (\<forall>f \<in> fst ` set (faces (octree m)).
           3 dvd unat (firstIndexNumber f)
           \<and> unat (firstIndexNumber f) + 3 \<le> length (indices (mesh m))
           \<and> firstIndexNumber f \<notin> freeFirstIndexNumbers m)
     \<and> distinct (map (firstIndexNumber \<circ> fst) (faces (octree m)))"

text \<open>
  The faces \<open>fs\<close> with the first index numbers \<open>n\<close>, \<open>n + 3\<close>, \<open>n + 6\<close>, ... in this
  order: what a run of \<open>addFace\<close> calls appends to a mesh without free slots whose index
  buffer has \<open>n\<close> entries, and with \<open>n = 0\<close> the faces as \<open>writeIndices\<close> renumbers them.
\<close>

fun facesFrom :: "nat \<Rightarrow> (WingedFace \<times> Triangle) list \<Rightarrow> (WingedFace \<times> Triangle) list" where
  "facesFrom n [] = []"
| "facesFrom n ((f, g) # fs) =
     (\<lparr>faceEdge = faceEdge f, faceId = faceId f, firstIndexNumber = of_nat n\<rparr>, g)
       # facesFrom (n + 3) fs"

section \<open>The writes of the write pipeline\<close>

text \<open>
  What \<open>writeIndices\<close> and \<open>writeNormals\<close> do to an array, as a list of writes
  (slot, value) applied in order: \<open>faceIndices\<close> are the 3 vertex indices of a face,
  \<open>faceWrites\<close> the writes that put them at the face's first index number, and
  \<open>normalWrites\<close> the writes of the vertex normals. \<open>slotsExist\<close> says that every write
  goes to an existing slot.
\<close>

fun applyWrites :: "(nat \<times> 'a) list \<Rightarrow> 'a list \<Rightarrow> 'a list" where
  "applyWrites [] xs = xs"
| "applyWrites ((k, v) # ws) xs = applyWrites ws (xs[k := v])"

definition slotsExist :: "(nat \<times> 'a) list \<Rightarrow> nat \<Rightarrow> bool" where
  "slotsExist ws n = list_all (\<lambda>(k, v). k < n) ws"

definition faceIndices :: "(ident \<Rightarrow> uint \<times> uint \<times> uint) \<Rightarrow> WingedFace \<Rightarrow> uint list" where
  "faceIndices av f = (case av (faceId f) of (i0, i1, i2) \<Rightarrow> [i0, i1, i2])"

definition faceWrites :: "(ident \<Rightarrow> uint \<times> uint \<times> uint) \<Rightarrow> WingedFace \<Rightarrow> (nat \<times> uint) list" where
  "faceWrites av f =
     (case av (faceId f) of
        (i0, i1, i2) \<Rightarrow>
          [(unat (firstIndexNumber f), i0), (unat (firstIndexNumber f + 1), i1),
           (unat (firstIndexNumber f + 2), i2)])"

definition allFaceWrites ::
  "(ident \<Rightarrow> uint \<times> uint \<times> uint) \<Rightarrow> (WingedFace \<times> Triangle) list \<Rightarrow> (nat \<times> uint) list" where
  "allFaceWrites av fs = concat (map (\<lambda>(f, g). faceWrites av f) fs)"

definition normalWrites :: "(WingedVertex \<Rightarrow> vec3) \<Rightarrow> WingedVertex list \<Rightarrow> (nat \<times> vec3) list" where
  "normalWrites nrm vs = map (\<lambda>v. (unat (vertexIndex v), nrm v)) vs"

section \<open>Example meshes\<close>

text \<open>
  A square of four vertices, used for the concrete instances below: \<open>quadMesh n ixs fs F\<close>
  has the normal \<open>n\<close> at every vertex, the index buffer \<open>ixs\<close>, one stored face for each
  (id, first index number) in \<open>fs\<close>, and the free offsets \<open>F\<close>.
\<close>

definition tri :: Triangle where
  "tri = Triangle (Vec3 0 0 0) (Vec3 1 0 0) (Vec3 0 1 0)"

definition newFace :: "ident \<Rightarrow> WingedFace" where
  "newFace i = \<lparr>faceEdge = None, faceId = i, firstIndexNumber = 0\<rparr>"

definition quadMesh :: "vec3 \<Rightarrow> uint list \<Rightarrow> (ident \<times> uint) list \<Rightarrow> uint set \<Rightarrow> WingedMesh" where
  "quadMesh n ixs fs F =
     \<lparr>meshId = 0,
      mesh = \<lparr>positions = [Vec3 0 0 0, Vec3 1 0 0, Vec3 1 1 0, Vec3 0 1 0],
              normals = [n, n, n, n], indices = ixs\<rparr>,
      vertices = map (\<lambda>k. \<lparr>vertexIndex = k, vertexEdge = None\<rparr>) [0, 1, 2, 3],
      edges = [],
      octree = \<lparr>root = None,
                faces = map (\<lambda>(i, k). (\<lparr>faceEdge = None, faceId = i, firstIndexNumber = k\<rparr>, tri)) fs\<rparr>,
      freeFirstIndexNumbers = F\<rparr>"

text \<open>The vertices of face \<open>i\<close> in a triangle fan around vertex 0.\<close>

definition fanIndices :: "ident \<Rightarrow> uint \<times> uint \<times> uint" where
  "fanIndices i = (0, of_nat i + 1, of_nat i + 2)"

definition boundaryEdge :: "ident \<Rightarrow> WingedEdge" where
  "boundaryEdge i =
     \<lparr>vertex1 = Some 0, vertex2 = Some 1, leftFace = None, rightFace = None,
      leftPredecessor = None, leftSuccessor = None, rightPredecessor = None,
      rightSuccessor = None, previousSibling = None, nextSibling = None, edgeId = i,
      isTEdge = False, faceGradient = 0, vertexGradient = 0\<rparr>"

text \<open>
  A ray, a ray-triangle test under which the ray hits the triangle \<open>tri\<close> at distance 2,
  one under which it misses everything, and an intersection that holds the hit of an
  earlier query.
\<close>

definition downRay :: PrimRay where
  "downRay = PrimRay (Vec3 0 0 2) (Vec3 0 0 (- 1))"

definition hitsTri :: "PrimRay \<Rightarrow> Triangle \<Rightarrow> (real \<times> vec3) option" where
  "hitsTri r g = (if g = tri then Some (2, Vec3 0 0 0) else None)"

definition hitsNothing :: "PrimRay \<Rightarrow> Triangle \<Rightarrow> (real \<times> vec3) option" where
  "hitsNothing r g = None"

definition earlierHit :: WingedFaceIntersection where
  "earlierHit =
     \<lparr>isIntersection = True, distance = 1, position = Vec3 5 5 1, hitMesh = 4, hitFace = 2\<rparr>"

definition quadScene :: Scene where
  "quadScene =
     \<lparr>wingedMeshes = [quadMesh (Vec3 0 0 0) [0, 1, 2] [(0, 0)] {}], selectionMode = Freeform\<rparr>"

section \<open>Helper lemmas\<close>

lemma card_uint_set_gt_0: "(card (A :: uint set) > 0) = (A \<noteq> {})"
  by (simp add: card_gt_0_iff)

lemma unat_uint_of_nat: "n < 2 ^ 32 \<Longrightarrow> unat (of_nat n :: uint) = n"
  by (simp add: unat_of_nat)

lemma replicate_3: "replicate 3 x = [x, x, x]"
  by (simp add: numeral_3_eq_3)

lemmas count_defs =
  numVertices_def numEdges_def numFaces_def numIndices_def Mesh_numVertices_def
  Mesh_numIndices_def Octree_numFaces_def

lemmas face_op_defs =
  addFace_def deleteFace_def hasFreeFirstIndexNumber_def nextFreeFirstIndexNumber_def
  Let_def Octree_insertFace_def Octree_deleteFace_def Mesh_numIndices_def
  Mesh_allocateIndices_def Mesh_popIndices_def face_def Octree_face_def replicate_3
  numIndices_def numFaces_def Octree_numFaces_def

lemmas write_defs =
  write_buffers_def writeIndices_def writeNormals_def Octree_forEachFace_def
  WingedFace_writeIndices_def WingedVertex_writeNormal_def Mesh_setIndex_def
  Mesh_setNormal_def Mesh_resizeIndices_def numFaces_def Octree_numFaces_def

lemmas example_defs = quadMesh_def newFace_def fanIndices_def WingedMesh_Impl_def

subsection \<open>Faces and index slots\<close>

lemma removeFace_length:
  "f \<in> fst ` set es \<Longrightarrow> Suc (length (removeFace f es)) = length es"
  by (induction es) auto




lemma uint_of_nat_minus_3:
  "3 \<le> n \<Longrightarrow> n < 2 ^ 32 \<Longrightarrow> unat ((of_nat n :: uint) - 3) = n - 3"
proof -
  assume a: "3 \<le> n" "n < 2 ^ 32"
  have "(of_nat n :: uint) - 3 = of_nat (n - 3)"
    using a(1) by (simp add: of_nat_diff)
  with a(2) show ?thesis by (simp add: unat_uint_of_nat)
qed

lemma trailing_iff:
  "3 \<le> n \<Longrightarrow> n < 2 ^ 32 \<Longrightarrow> (x = (of_nat n :: uint) - 3) = (unat x = n - 3)"
  using uint_of_nat_minus_3 [of n] by (auto simp: word_unat_eq_iff)


lemma addFace_reuse:
  assumes "freeFirstIndexNumbers m \<noteq> {}"
  shows "addFace f g m =
     Inr (\<lparr>faceEdge = faceEdge f, faceId = faceId f,
            firstIndexNumber = Min (freeFirstIndexNumbers m)\<rparr>,
          m\<lparr>octree := (octree m)\<lparr>faces := faces (octree m) @
                 [(\<lparr>faceEdge = faceEdge f, faceId = faceId f,
                    firstIndexNumber = Min (freeFirstIndexNumbers m)\<rparr>, g)]\<rparr>,
            freeFirstIndexNumbers := freeFirstIndexNumbers m - {Min (freeFirstIndexNumbers m)}\<rparr>)"
  using assms
  by (simp add: addFace_def hasFreeFirstIndexNumber_def nextFreeFirstIndexNumber_def
      card_uint_set_gt_0 Octree_insertFace_def Let_def)

lemma addFace_grow:
  assumes "freeFirstIndexNumbers m = {}"
  shows "addFace f g m =
     Inr (\<lparr>faceEdge = faceEdge f, faceId = faceId f, firstIndexNumber = numIndices m\<rparr>,
          m\<lparr>mesh := (mesh m)\<lparr>indices := indices (mesh m) @ [0, 0, 0]\<rparr>,
            octree := (octree m)\<lparr>faces := faces (octree m) @
                 [(\<lparr>faceEdge = faceEdge f, faceId = faceId f,
                    firstIndexNumber = numIndices m\<rparr>, g)]\<rparr>\<rparr>)"
  using assms
  by (simp add: addFace_def hasFreeFirstIndexNumber_def numIndices_def
      Octree_insertFace_def Let_def Mesh_allocateIndices_def replicate_3)

lemma deleteFace_trailing:
  assumes "firstIndexNumber f = numIndices m - 3" "3 \<le> length (indices (mesh m))"
    "f \<in> fst ` set (faces (octree m))"
  shows "deleteFace f m =
     Inr (m\<lparr>mesh := (mesh m)\<lparr>indices := take (length (indices (mesh m)) - 3) (indices (mesh m))\<rparr>,
           octree := (octree m)\<lparr>faces := removeFace f (faces (octree m))\<rparr>\<rparr>)"
  using assms
  by (simp add: deleteFace_def numIndices_def Mesh_popIndices_def Octree_deleteFace_def)

lemma deleteFace_other:
  assumes "firstIndexNumber f \<noteq> numIndices m - 3" "f \<in> fst ` set (faces (octree m))"
  shows "deleteFace f m =
     Inr (m\<lparr>freeFirstIndexNumbers := insert (firstIndexNumber f) (freeFirstIndexNumbers m),
           octree := (octree m)\<lparr>faces := removeFace f (faces (octree m))\<rparr>\<rparr>)"
  using assms
  by (simp add: deleteFace_def numIndices_def Octree_deleteFace_def)









lemma facesFrom_length: "length (facesFrom n fs) = length fs"
  by (induction n fs rule: facesFrom.induct) auto

lemma facesFrom_nth:
  "k < length fs \<Longrightarrow> firstIndexNumber (fst (facesFrom n fs ! k)) = of_nat (n + 3 * k)"
proof (induction n fs arbitrary: k rule: facesFrom.induct)
  case (1 n)
  then show ?case by simp
next
  case (2 n f g fs)
  show ?case
  proof (cases k)
    case 0
    then show ?thesis by simp
  next
    case (Suc j)
    with "2.prems" have "j < length fs" by simp
    from "2.IH" [OF this] Suc show ?thesis by (simp add: add.assoc add.commute)
  qed
qed

lemma facesFrom_Suc3: "facesFrom (Suc (Suc (Suc n))) fs = facesFrom (3 + n) fs"
  by (simp add: numeral_3_eq_3)

lemma addFaces_run:
  "freeFirstIndexNumbers m = {} \<Longrightarrow>
     runFaceOps (map (\<lambda>(f, g). AddFace f g) fs) m =
       Inr (m\<lparr>mesh := (mesh m)\<lparr>indices := indices (mesh m) @ replicate (3 * length fs) 0\<rparr>,
             octree := (octree m)\<lparr>faces := faces (octree m)
                          @ facesFrom (length (indices (mesh m))) fs\<rparr>\<rparr>)"
proof (induction fs arbitrary: m)
  case Nil
  then show ?case by simp
next
  case (Cons p fs)
  obtain f g where p: "p = (f, g)" by (cases p)
  let ?m1 = "m\<lparr>mesh := (mesh m)\<lparr>indices := indices (mesh m) @ [0, 0, 0]\<rparr>,
            octree := (octree m)\<lparr>faces := faces (octree m) @
                 [(\<lparr>faceEdge = faceEdge f, faceId = faceId f,
                    firstIndexNumber = numIndices m\<rparr>, g)]\<rparr>\<rparr>"
  have step: "runFaceOp (AddFace f g) m = Inr ?m1"
    using addFace_grow [OF Cons.prems, of f g] by simp
  have free: "freeFirstIndexNumbers ?m1 = {}"
    using Cons.prems by simp
  have rep: "[0, 0, 0] @ replicate (3 * length fs) (0 :: uint) = replicate (3 * length (p # fs)) 0"
    by (simp add: replicate_3 [symmetric] replicate_add [symmetric] del: replicate_Suc)
  show ?case
    using Cons.IH [OF free] step rep
    by (simp add: p numIndices_def Mesh_numIndices_def add.commute facesFrom_Suc3)
qed

lemma unat_uint_3_times: "3 * n < 2 ^ 32 \<Longrightarrow> unat (3 * (of_nat n :: uint)) = 3 * n"
proof -
  assume a: "3 * n < 2 ^ 32"
  have "3 * (of_nat n :: uint) = of_nat (3 * n)" by simp
  with a show ?thesis using unat_uint_of_nat [of "3 * n"] by simp
qed

subsection \<open>Vertices\<close>

lemma addVertex_lengths:
  "length (vertices (snd (addVertex v m))) = Suc (length (vertices m))
   \<and> length (positions (mesh (snd (addVertex v m)))) = Suc (length (positions (mesh m)))"
  by (simp add: addVertex_def Mesh_addVertex_def Let_def)

lemma popVertex_lengths:
  "popVertex m = Inr m' \<Longrightarrow>
     Suc (length (vertices m')) = length (vertices m)
     \<and> Suc (length (positions (mesh m'))) = length (positions (mesh m))"
  by (auto simp: popVertex_def Mesh_popVertex_def split: if_splits sum.splits)

lemma runVertexOps_parity:
  "runVertexOps ops m = Inr m' \<Longrightarrow> length (vertices m) = length (positions (mesh m))
   \<Longrightarrow> length (vertices m') = length (positions (mesh m'))"
proof (induction ops m rule: runVertexOps.induct)
  case (1 m)
  then show ?case by simp
next
  case (2 v ops m)
  then show ?case using addVertex_lengths [of v m] by simp
next
  case (3 ops m)
  from "3.prems"(1) obtain m1 where pop: "popVertex m = Inr m1"
    and run: "runVertexOps ops m1 = Inr m'"
    by (auto split: sum.splits)
  from popVertex_lengths [OF pop] "3.prems"(2)
  have "length (vertices m1) = length (positions (mesh m1))" by simp
  with "3.IH" [OF pop run] show ?case .
qed

lemma popVertex_returns:
  "(\<exists>m'. popVertex m = Inr m') = (positions (mesh m) \<noteq> [] \<and> vertices m \<noteq> [])"
  by (simp add: popVertex_def Mesh_popVertex_def)

lemma runVertexOps_returns:
  "length (vertices m) = n \<Longrightarrow> length (positions (mesh m)) = n
   \<Longrightarrow> (\<exists>m'. runVertexOps ops m = Inr m') = popsAllowed n ops"
proof (induction ops m arbitrary: n rule: runVertexOps.induct)
  case (1 m)
  then show ?case by simp
next
  case (2 v ops m)
  from addVertex_lengths [of v m] "2.prems"
  have "length (vertices (snd (addVertex v m))) = Suc n"
    and "length (positions (mesh (snd (addVertex v m)))) = Suc n"
    by simp_all
  from "2.IH" [OF this] show ?case by simp
next
  case (3 ops m)
  show ?case
  proof (cases "n = 0")
    case True
    with "3.prems" have "popVertex m = Inl UndefinedBehaviour"
      by (simp add: popVertex_def Mesh_popVertex_def)
    with True show ?thesis by simp
  next
    case False
    with "3.prems" popVertex_returns [of m] obtain m1 where pop: "popVertex m = Inr m1"
      by auto
    from popVertex_lengths [OF pop] "3.prems"
    have "length (vertices m1) = n - 1" and "length (positions (mesh m1)) = n - 1"
      by auto
    from "3.IH" [OF pop this] pop False show ?thesis by simp
  qed
qed

lemma numVertices_checks:
  "length (positions (mesh m)) < 2 ^ 32 \<Longrightarrow>
     numVertices m = (if length (vertices m) = length (positions (mesh m))
                      then Inr (of_nat (length (vertices m))) else Inl AssertionFailed)"
  by (auto simp: numVertices_def Mesh_numVertices_def unat_uint_of_nat)

subsection \<open>Lookups\<close>

lemma vertexSLOW_scan_find: "vertexSLOW_scan i vs = find (\<lambda>v. vertexIndex v = i) vs"
  by (induction vs) auto

lemma edgeSLOW_scan_find: "edgeSLOW_scan i es = find (\<lambda>e. edgeId e = i) es"
  by (induction es) auto

subsection \<open>Writing\<close>

lemma writeNormals_keeps:
  "writeNormals nrm m = Inr m' \<Longrightarrow>
     freeFirstIndexNumbers m' = freeFirstIndexNumbers m \<and> octree m' = octree m
     \<and> vertices m' = vertices m"
  by (auto simp: writeNormals_def split: sum.splits)

lemma writeIndices_clears:
  "writeIndices av m = Inr m' \<Longrightarrow> freeFirstIndexNumbers m' = {}"
  by (auto simp: writeIndices_def card_uint_set_gt_0 split: sum.splits if_splits)

lemma write_clears:
  "write_buffers av nrm m = Inr m' \<Longrightarrow> freeFirstIndexNumbers m' = {}"
  by (auto simp: write_buffers_def split: sum.splits
      dest: writeIndices_clears writeNormals_keeps)

lemma applyWrites_length: "length (applyWrites ws xs) = length xs"
  by (induction ws xs rule: applyWrites.induct) auto

lemma applyWrites_append: "applyWrites (ws @ vs) xs = applyWrites vs (applyWrites ws xs)"
  by (induction ws xs rule: applyWrites.induct) auto

lemma slotsExist_append: "slotsExist (ws @ vs) n = (slotsExist ws n \<and> slotsExist vs n)"
  by (simp add: slotsExist_def)

lemma applyWrites_overwritten:
  "(applyWrites ws (xs[k := v]))[k := u] = (applyWrites ws xs)[k := u]"
proof (induction ws xs rule: applyWrites.induct)
  case (1 xs)
  then show ?case by simp
next
  case (2 j w ws xs)
  show ?case
  proof (cases "j = k")
    case True
    then show ?thesis by simp
  next
    case False
    then have "xs[k := v, j := w] = xs[j := w, k := v]"
      by (simp add: list_update_swap)
    with "2.IH" [of ] show ?thesis
      by (metis "2.IH" applyWrites.simps(2))
  qed
qed

lemma applyWrites_twice: "applyWrites ws (applyWrites ws xs) = applyWrites ws xs"
proof (induction ws arbitrary: xs rule: rev_induct)
  case Nil
  then show ?case by simp
next
  case (snoc p ws)
  obtain k v where p: "p = (k, v)" by (cases p)
  have "applyWrites (ws @ [p]) (applyWrites (ws @ [p]) xs)
      = (applyWrites ws ((applyWrites ws xs)[k := v]))[k := v]"
    by (simp add: applyWrites_append p)
  also have "\<dots> = (applyWrites ws (applyWrites ws xs))[k := v]"
    by (rule applyWrites_overwritten)
  also have "\<dots> = (applyWrites ws xs)[k := v]"
    by (simp add: snoc.IH)
  finally show ?case by (simp add: applyWrites_append p)
qed

lemma WingedFace_writeIndices_None:
  "WingedFace_writeIndices av None f b =
     (if slotsExist (faceWrites av f) (length (indices b))
      then Inr (b\<lparr>indices := applyWrites (faceWrites av f) (indices b)\<rparr>, f)
      else Inl AssertionFailed)"
proof -
  obtain i0 i1 i2 where av: "av (faceId f) = (i0, i1, i2)"
    by (cases "av (faceId f)")
  show ?thesis
    by (auto simp: WingedFace_writeIndices_def faceWrites_def slotsExist_def Mesh_setIndex_def
        av Let_def)
qed

lemma WingedFace_writeIndices_Some:
  "WingedFace_writeIndices av (Some n) f b
     = WingedFace_writeIndices av None (f\<lparr>firstIndexNumber := n\<rparr>) b"
  by (simp add: WingedFace_writeIndices_def)

lemma forEachFace_inplace:
  "forEachFace_loop (\<lambda>b f. WingedFace_writeIndices av None f b) b fs =
     (if slotsExist (allFaceWrites av fs) (length (indices b))
      then Inr (b\<lparr>indices := applyWrites (allFaceWrites av fs) (indices b)\<rparr>, fs)
      else Inl AssertionFailed)"
proof -
  define cb where "cb = (\<lambda>b f. WingedFace_writeIndices av None f b)"
  have step: "cb b f =
     (if slotsExist (faceWrites av f) (length (indices b))
      then Inr (b\<lparr>indices := applyWrites (faceWrites av f) (indices b)\<rparr>, f)
      else Inl AssertionFailed)" for b f
    by (simp add: cb_def WingedFace_writeIndices_None)
  have "forEachFace_loop cb b fs =
     (if slotsExist (allFaceWrites av fs) (length (indices b))
      then Inr (b\<lparr>indices := applyWrites (allFaceWrites av fs) (indices b)\<rparr>, fs)
      else Inl AssertionFailed)"
  proof (induction fs arbitrary: b)
    case Nil
    then show ?case by (simp add: allFaceWrites_def slotsExist_def)
  next
    case (Cons p fs)
    obtain f g where p: "p = (f, g)" by (cases p)
    have w: "allFaceWrites av (p # fs) = faceWrites av f @ allFaceWrites av fs"
      by (simp add: allFaceWrites_def p)
    note s = step [of b f]
    show ?case
      by (simp add: p w [unfolded p] s Cons.IH slotsExist_append applyWrites_append
          applyWrites_length)
  qed
  then show ?thesis by (simp add: cb_def)
qed

lemma forEachFace_repack:
  "forEachFace_loop
       (\<lambda>(b, fin) f.
          case WingedFace_writeIndices av (Some fin) f b of
            Inl e \<Rightarrow> Inl e
          | Inr (b1, f1) \<Rightarrow> Inr ((b1, fin + 3), f1))
       (b, of_nat n) fs =
     (case forEachFace_loop (\<lambda>b f. WingedFace_writeIndices av None f b) b (facesFrom n fs) of
        Inl e \<Rightarrow> Inl e
      | Inr (b1, fs1) \<Rightarrow> Inr ((b1, of_nat (n + 3 * length fs)), fs1))"
proof -
  define cb where "cb = (\<lambda>b f. WingedFace_writeIndices av None f b)"
  define cr where "cr = (\<lambda>(b, fin :: uint) f.
          case WingedFace_writeIndices av (Some fin) f b of
            Inl e \<Rightarrow> Inl e
          | Inr (b1, f1) \<Rightarrow> Inr ((b1, fin + 3), f1))"
  have step: "cr (b, of_nat n) f =
      (case cb b \<lparr>faceEdge = faceEdge f, faceId = faceId f, firstIndexNumber = of_nat n\<rparr> of
         Inl e \<Rightarrow> Inl e
       | Inr (b1, f1) \<Rightarrow> Inr ((b1, of_nat (n + 3)), f1))" for b n f
    by (cases f) (simp add: cr_def cb_def WingedFace_writeIndices_Some split: sum.splits)
  have "forEachFace_loop cr (b, of_nat n) fs =
     (case forEachFace_loop cb b (facesFrom n fs) of
        Inl e \<Rightarrow> Inl e
      | Inr (b1, fs1) \<Rightarrow> Inr ((b1, of_nat (n + 3 * length fs)), fs1))"
  proof (induction fs arbitrary: b n)
    case Nil
    then show ?case by simp
  next
    case (Cons p fs)
    obtain f g where p: "p = (f, g)" by (cases p)
    have l: "n + 3 + 3 * length fs = n + 3 * length (p # fs)" by simp
    note s = step [of b n f]
    show ?case
      by (simp add: p s Cons.IH l [unfolded p] split: sum.splits del: of_nat_add of_nat_mult)
  qed
  then show ?thesis by (simp add: cb_def cr_def)
qed

lemma writeNormals_loop_eq:
  "writeNormals_loop nrm vs b =
     (if slotsExist (normalWrites nrm vs) (length (normals b))
      then Inr (b\<lparr>normals := applyWrites (normalWrites nrm vs) (normals b)\<rparr>)
      else Inl AssertionFailed)"
  by (induction vs arbitrary: b)
    (simp_all add: normalWrites_def slotsExist_def WingedVertex_writeNormal_def
      Mesh_setNormal_def)

lemma writeNormals_eq:
  "writeNormals nrm m =
     (if slotsExist (normalWrites nrm (vertices m)) (length (normals (mesh m)))
      then Inr (m\<lparr>mesh := (mesh m)\<lparr>normals :=
                  applyWrites (normalWrites nrm (vertices m)) (normals (mesh m))\<rparr>\<rparr>)
      else Inl AssertionFailed)"
  by (simp add: writeNormals_def writeNormals_loop_eq)

lemma writeIndices_inplace:
  "freeFirstIndexNumbers m = {} \<Longrightarrow>
     writeIndices av m =
       (if slotsExist (allFaceWrites av (faces (octree m))) (length (indices (mesh m)))
        then Inr (m\<lparr>mesh := (mesh m)\<lparr>indices :=
                    applyWrites (allFaceWrites av (faces (octree m))) (indices (mesh m))\<rparr>\<rparr>)
        else Inl AssertionFailed)"
  by (simp add: writeIndices_def Octree_forEachFace_def forEachFace_inplace)

lemma writeIndices_repack:
  "freeFirstIndexNumbers m \<noteq> {} \<Longrightarrow>
     writeIndices av m =
       (if slotsExist (allFaceWrites av (facesFrom 0 (faces (octree m))))
             (length (indices (Mesh_resizeIndices (numFaces m * 3) (mesh m))))
        then Inr (m\<lparr>mesh := (mesh m)\<lparr>indices :=
                    applyWrites (allFaceWrites av (facesFrom 0 (faces (octree m))))
                      (indices (Mesh_resizeIndices (numFaces m * 3) (mesh m)))\<rparr>,
                  octree := (octree m)\<lparr>faces := facesFrom 0 (faces (octree m))\<rparr>,
                  freeFirstIndexNumbers := {}\<rparr>)
        else Inl AssertionFailed)"
proof -
  assume ne: "freeFirstIndexNumbers m \<noteq> {}"
  have z: "(0 :: uint) = of_nat 0" by simp
  show ?thesis
    using ne
    by (simp add: writeIndices_def Octree_forEachFace_def card_uint_set_gt_0)
      (simp add: z forEachFace_repack forEachFace_inplace Mesh_resizeIndices_def
        del: of_nat_0 semiring_1_class.of_nat_0)
qed

lemma uint_plus_1: "n + 1 < 2 ^ 32 \<Longrightarrow> unat ((of_nat n :: uint) + 1) = n + 1"
  using unat_uint_of_nat [of "n + 1"] by (simp add: add.commute)

lemma uint_plus_2: "n + 2 < 2 ^ 32 \<Longrightarrow> unat ((of_nat n :: uint) + 2) = n + 2"
  using unat_uint_of_nat [of "n + 2"] by (simp add: add.commute)

lemma packed_writes:
  "length pre = n \<Longrightarrow> length mid = 3 * length fs \<Longrightarrow> n + 3 * length fs < 2 ^ 32 \<Longrightarrow>
     applyWrites (allFaceWrites av (facesFrom n fs)) (pre @ mid @ post)
       = pre @ concat (map (\<lambda>(f, g). faceIndices av f) fs) @ post
     \<and> slotsExist (allFaceWrites av (facesFrom n fs)) (n + 3 * length fs)"
proof (induction fs arbitrary: n pre mid)
  case Nil
  then show ?case by (simp add: allFaceWrites_def slotsExist_def)
next
  case (Cons p fs)
  obtain f g where p: "p = (f, g)" by (cases p)
  obtain i0 i1 i2 where av: "av (faceId f) = (i0, i1, i2)" by (cases "av (faceId f)")
  from Cons.prems(2) obtain a b c rest where mid: "mid = a # b # c # rest"
    and rest: "length rest = 3 * length fs"
    by (cases mid; cases "tl mid"; cases "tl (tl mid)") auto
  from Cons.prems(3) have fit: "n + 2 < 2 ^ 32" "n + 1 < 2 ^ 32" "n < 2 ^ 32"
    and fit': "(n + 3) + 3 * length fs < 2 ^ 32"
    by simp_all
  let ?f = "\<lparr>faceEdge = faceEdge f, faceId = faceId f, firstIndexNumber = of_nat n\<rparr>"
  have w: "faceWrites av ?f = [(n, i0), (n + 1, i1), (n + 2, i2)]"
    using fit by (simp add: faceWrites_def av unat_uint_of_nat uint_plus_1 uint_plus_2)
  have all: "allFaceWrites av (facesFrom n (p # fs))
      = [(n, i0), (n + 1, i1), (n + 2, i2)] @ allFaceWrites av (facesFrom (n + 3) fs)"
    using w by (simp add: p allFaceWrites_def)
  have first: "applyWrites [(n, i0), (n + 1, i1), (n + 2, i2)] (pre @ mid @ post)
      = (pre @ [i0, i1, i2]) @ rest @ post"
    using Cons.prems(1) by (simp add: mid list_update_append)
  have len: "length (pre @ [i0, i1, i2]) = n + 3"
    using Cons.prems(1) by simp
  from Cons.IH [OF len rest fit']
  have ih: "applyWrites (allFaceWrites av (facesFrom (n + 3) fs)) ((pre @ [i0, i1, i2]) @ rest @ post)
       = (pre @ [i0, i1, i2]) @ concat (map (\<lambda>(f, g). faceIndices av f) fs) @ post"
    and ex: "slotsExist (allFaceWrites av (facesFrom (n + 3) fs)) (n + 3 + 3 * length fs)"
    by simp_all
  have fi: "faceIndices av f = [i0, i1, i2]"
    by (simp add: faceIndices_def av)
  have one: "applyWrites (allFaceWrites av (facesFrom n (p # fs))) (pre @ mid @ post)
       = pre @ concat (map (\<lambda>(f, g). faceIndices av f) (p # fs)) @ post"
    unfolding all applyWrites_append first ih
    by (simp add: p fi)
  have two: "slotsExist (allFaceWrites av (facesFrom n (p # fs))) (n + 3 * length (p # fs))"
    unfolding all slotsExist_append
    using ex by (simp add: slotsExist_def add.assoc)
  from one two show ?case by blast
qed

lemma uint_plus_1': "unat x + 1 < 2 ^ 32 \<Longrightarrow> unat ((x :: uint) + 1) = unat x + 1"
  using uint_plus_1 [of "unat x"] by simp

lemma uint_plus_2': "unat x + 2 < 2 ^ 32 \<Longrightarrow> unat ((x :: uint) + 2) = unat x + 2"
  using uint_plus_2 [of "unat x"] by simp

lemma faceWrites_exist:
  "unat (firstIndexNumber f) + 3 \<le> n \<Longrightarrow> n < 2 ^ 32 \<Longrightarrow> slotsExist (faceWrites av f) n"
  by (cases "av (faceId f)") (simp add: faceWrites_def slotsExist_def uint_plus_1' uint_plus_2')

lemma allFaceWrites_exist:
  "\<forall>f \<in> fst ` set fs. unat (firstIndexNumber f) + 3 \<le> n \<Longrightarrow> n < 2 ^ 32
   \<Longrightarrow> slotsExist (allFaceWrites av fs) n"
proof (induction fs)
  case Nil
  then show ?case by (simp add: allFaceWrites_def slotsExist_def)
next
  case (Cons p fs)
  obtain f g where p: "p = (f, g)" by (cases p)
  from Cons.prems have "unat (firstIndexNumber f) + 3 \<le> n" by (simp add: p)
  from faceWrites_exist [OF this Cons.prems(2), of av] Cons
  have "slotsExist (faceWrites av f) n \<and> slotsExist (allFaceWrites av fs) n" by simp
  moreover have "allFaceWrites av (p # fs) = faceWrites av f @ allFaceWrites av fs"
    by (simp add: allFaceWrites_def p)
  ultimately show ?case by (simp add: slotsExist_append)
qed

lemma slotsValid_slotsExist:
  "slotsValid m \<Longrightarrow> slotsExist (allFaceWrites av (faces (octree m))) (length (indices (mesh m)))"
  by (rule allFaceWrites_exist) (auto simp: slotsValid_def)

lemma writeIndices_again:
  assumes "writeIndices av m = Inr m1"
  shows "writeIndices av m1 = Inr m1"
proof (cases "freeFirstIndexNumbers m = {}")
  case True
  let ?W = "allFaceWrites av (faces (octree m))"
  from assms writeIndices_inplace [OF True, of av]
  have ex: "slotsExist ?W (length (indices (mesh m)))"
    and m1: "m1 = m\<lparr>mesh := (mesh m)\<lparr>indices := applyWrites ?W (indices (mesh m))\<rparr>\<rparr>"
    by (auto split: if_splits)
  have free: "freeFirstIndexNumbers m1 = {}"
    using True by (simp add: m1)
  show ?thesis
    using writeIndices_inplace [OF free, of av] ex
    by (simp add: m1 applyWrites_length applyWrites_twice)
next
  case False
  let ?fs = "facesFrom 0 (faces (octree m))"
  let ?xs = "indices (Mesh_resizeIndices (numFaces m * 3) (mesh m))"
  let ?W = "allFaceWrites av ?fs"
  from assms writeIndices_repack [OF False, of av]
  have ex: "slotsExist ?W (length ?xs)"
    and m1: "m1 = m\<lparr>mesh := (mesh m)\<lparr>indices := applyWrites ?W ?xs\<rparr>,
                  octree := (octree m)\<lparr>faces := ?fs\<rparr>, freeFirstIndexNumbers := {}\<rparr>"
    by (auto split: if_splits)
  have free: "freeFirstIndexNumbers m1 = {}"
    by (simp add: m1)
  show ?thesis
    using writeIndices_inplace [OF free, of av] ex
    by (simp add: m1 applyWrites_length applyWrites_twice)
qed

lemma write_again:
  assumes "write_buffers av nrm m = Inr m1"
  shows "write_buffers av nrm m1 = Inr m1"
proof -
  from assms obtain ma where wi: "writeIndices av m = Inr ma" and wn: "writeNormals nrm ma = Inr m1"
    by (auto simp: write_buffers_def split: sum.splits)
  let ?W = "allFaceWrites av (faces (octree ma))"
  let ?N = "normalWrites nrm (vertices ma)"
  have free: "freeFirstIndexNumbers ma = {}"
    using writeIndices_clears [OF wi] .
  from writeIndices_again [OF wi] writeIndices_inplace [OF free, of av]
  have ex: "slotsExist ?W (length (indices (mesh ma)))"
    and unchanged: "ma\<lparr>mesh := (mesh ma)\<lparr>indices := applyWrites ?W (indices (mesh ma))\<rparr>\<rparr> = ma"
    by (auto split: if_splits)
  from unchanged have "indices (mesh (ma\<lparr>mesh := (mesh ma)\<lparr>indices :=
      applyWrites ?W (indices (mesh ma))\<rparr>\<rparr>)) = indices (mesh ma)"
    by simp
  then have same: "applyWrites ?W (indices (mesh ma)) = indices (mesh ma)"
    by simp
  from wn writeNormals_eq [of nrm ma]
  have exn: "slotsExist ?N (length (normals (mesh ma)))"
    and m1: "m1 = ma\<lparr>mesh := (mesh ma)\<lparr>normals := applyWrites ?N (normals (mesh ma))\<rparr>\<rparr>"
    by (auto split: if_splits)
  have free1: "freeFirstIndexNumbers m1 = {}"
    using free by (simp add: m1)
  have wi1: "writeIndices av m1 = Inr m1"
    using writeIndices_inplace [OF free1, of av] ex same
    by (simp add: m1)
  have wn1: "writeNormals nrm m1 = Inr m1"
    using writeNormals_eq [of nrm m1] exn
    by (simp add: m1 applyWrites_length applyWrites_twice)
  from wi1 wn1 show ?thesis
    by (simp add: write_buffers_def)
qed

lemma facesFrom_offsets:
  "map (firstIndexNumber \<circ> fst) (facesFrom n fs) = map (\<lambda>j. of_nat (n + 3 * j)) [0..<length fs]"
  by (rule nth_equalityI) (simp_all add: facesFrom_length facesFrom_nth)

lemma facesFrom_same_faces:
  "map (\<lambda>(f, g). (faceEdge f, faceId f, g)) (facesFrom n fs)
     = map (\<lambda>(f, g). (faceEdge f, faceId f, g)) fs"
  by (induction n fs rule: facesFrom.induct) auto

lemma faceIndices_length:
  "length (concat (map (\<lambda>(f, g). faceIndices av f) fs)) = 3 * length fs"
  by (induction fs) (auto simp: faceIndices_def split: prod.splits)

lemma writeIndices_packed:
  assumes ne: "freeFirstIndexNumbers m \<noteq> {}" and fit: "3 * length (faces (octree m)) < 2 ^ 32"
  shows "writeIndices av m =
     Inr (m\<lparr>mesh := (mesh m)\<lparr>indices :=
                concat (map (\<lambda>(f, g). faceIndices av f) (faces (octree m)))\<rparr>,
           octree := (octree m)\<lparr>faces := facesFrom 0 (faces (octree m))\<rparr>,
           freeFirstIndexNumbers := {}\<rparr>)"
proof -
  let ?fs = "faces (octree m)"
  let ?xs = "indices (Mesh_resizeIndices (numFaces m * 3) (mesh m))"
  have n: "unat (numFaces m * 3) = 3 * length ?fs"
    using unat_uint_3_times [OF fit] by (simp add: numFaces_def Octree_numFaces_def mult.commute)
  have len: "length ?xs = 3 * length ?fs"
    using n by (simp add: Mesh_resizeIndices_def)
  from packed_writes [of "[]" 0 ?xs ?fs av "[]"] len fit
  have "applyWrites (allFaceWrites av (facesFrom 0 ?fs)) ?xs
       = concat (map (\<lambda>(f, g). faceIndices av f) ?fs)"
    and "slotsExist (allFaceWrites av (facesFrom 0 ?fs)) (length ?xs)"
    by simp_all
  with writeIndices_repack [OF ne, of av] show ?thesis by simp
qed

subsection \<open>Ray queries\<close>

lemma update_isIntersection:
  "isIntersection (WingedFaceIntersection_update d p mi fi i)"
  by (simp add: WingedFaceIntersection_update_def)

lemma Octree_intersects_loop_result:
  "fst (Octree_intersects_loop hit mi ray fs i) = list_ex (\<lambda>(f, g). hit ray g \<noteq> None) fs
   \<and> isIntersection (snd (Octree_intersects_loop hit mi ray fs i))
       = (isIntersection i \<or> list_ex (\<lambda>(f, g). hit ray g \<noteq> None) fs)
   \<and> (\<not> list_ex (\<lambda>(f, g). hit ray g \<noteq> None) fs
        \<longrightarrow> Octree_intersects_loop hit mi ray fs i = (False, i))"
proof (induction fs arbitrary: i)
  case Nil
  then show ?case by simp
next
  case (Cons e fs)
  obtain f g where e: "e = (f, g)" by (cases e)
  show ?case
  proof (cases "hit ray g")
    case None
    with Cons.IH [of i] show ?thesis by (simp add: e)
  next
    case (Some h)
    obtain d p where h: "h = (d, p)" by (cases h)
    from Cons.IH [of "WingedFaceIntersection_update d p mi (faceId f) i"]
    show ?thesis by (simp add: e Some h update_isIntersection)
  qed
qed

lemma intersects_result:
  "fst (intersects hit ray i m) = meshHit hit ray m
   \<and> isIntersection (snd (intersects hit ray i m)) = (isIntersection i \<or> meshHit hit ray m)
   \<and> (\<not> meshHit hit ray m \<longrightarrow> intersects hit ray i m = (False, i))"
  using Octree_intersects_loop_result [of hit "meshId m" ray "faces (octree m)" i]
  by (simp add: intersects_def Octree_intersects_def meshHit_def)

lemma Scene_intersects_loop_result:
  "isIntersection (Scene_intersects_loop hit ray ms i)
       = (isIntersection i \<or> list_ex (meshHit hit ray) ms)
   \<and> (\<not> list_ex (meshHit hit ray) ms \<longrightarrow> Scene_intersects_loop hit ray ms i = i)"
proof (induction ms arbitrary: i)
  case Nil
  then show ?case by simp
next
  case (Cons m ms)
  from Cons.IH [of "snd (intersects hit ray i m)"] intersects_result [of hit ray i m]
  show ?case by auto
qed

section \<open>Reuse of free index slots\<close>

text \<open>
  C1: when the allocator holds a free offset, \<open>addFace\<close> gives the new face the smallest
  free offset as its first index number, removes that offset from the free set and
  leaves the index buffer as it is. When no offset is free, \<open>addFace\<close> appends 3 index
  slots and the new face starts at the former \<open>numIndices()\<close>. Consequently: build N faces
  on a mesh without faces (N small enough for 3N to fit an \<open>unsigned int\<close>), delete the
  face k with k < N - 1, and add one face; then \<open>numIndices()\<close> is 3N, the new face has
  taken the slot 3k, and \<open>numFaces()\<close> is N again.
\<close>

theorem addFace_slot_reuse:
  "(freeFirstIndexNumbers m \<noteq> {} \<longrightarrow>
      (\<exists>nf m'. addFace f g m = Inr (nf, m')
         \<and> firstIndexNumber nf = Min (freeFirstIndexNumbers m)
         \<and> (\<forall>x \<in> freeFirstIndexNumbers m. firstIndexNumber nf \<le> x)
         \<and> freeFirstIndexNumbers m' = freeFirstIndexNumbers m - {firstIndexNumber nf}
         \<and> mesh m' = mesh m \<and> numIndices m' = numIndices m))
   \<and> (freeFirstIndexNumbers m = {} \<longrightarrow>
      (\<exists>nf m'. addFace f g m = Inr (nf, m')
         \<and> firstIndexNumber nf = numIndices m
         \<and> indices (mesh m') = indices (mesh m) @ [0, 0, 0]
         \<and> freeFirstIndexNumbers m' = {}))
   \<and> (faces (octree m0) = [] \<and> indices (mesh m0) = [] \<and> freeFirstIndexNumbers m0 = {}
        \<and> 3 * length fs < 2 ^ 32 \<and> k + 1 < length fs \<longrightarrow>
      (\<exists>mN m1 nf m2.
         runFaceOps (map (\<lambda>(f, g). AddFace f g) fs) m0 = Inr mN
         \<and> unat (numFaces mN) = length fs \<and> unat (numIndices mN) = 3 * length fs
         \<and> unat (firstIndexNumber (fst (faces (octree mN) ! k))) = 3 * k
         \<and> deleteFace (fst (faces (octree mN) ! k)) mN = Inr m1
         \<and> freeFirstIndexNumbers m1 = {of_nat (3 * k)}
         \<and> addFace f g m1 = Inr (nf, m2)
         \<and> unat (firstIndexNumber nf) = 3 * k
         \<and> unat (numFaces m2) = length fs \<and> unat (numIndices m2) = 3 * length fs))"
proof -
  have a: "\<exists>nf m'. addFace f g m = Inr (nf, m')
         \<and> firstIndexNumber nf = Min (freeFirstIndexNumbers m)
         \<and> (\<forall>x \<in> freeFirstIndexNumbers m. firstIndexNumber nf \<le> x)
         \<and> freeFirstIndexNumbers m' = freeFirstIndexNumbers m - {firstIndexNumber nf}
         \<and> mesh m' = mesh m \<and> numIndices m' = numIndices m"
    if "freeFirstIndexNumbers m \<noteq> {}"
    using addFace_reuse [OF that, of f g] by (simp add: numIndices_def)
  have b: "\<exists>nf m'. addFace f g m = Inr (nf, m')
         \<and> firstIndexNumber nf = numIndices m
         \<and> indices (mesh m') = indices (mesh m) @ [0, 0, 0]
         \<and> freeFirstIndexNumbers m' = {}"
    if "freeFirstIndexNumbers m = {}"
    using addFace_grow [OF that, of f g] that by simp
  have c: "\<exists>mN m1 nf m2.
         runFaceOps (map (\<lambda>(f, g). AddFace f g) fs) m0 = Inr mN
         \<and> unat (numFaces mN) = length fs \<and> unat (numIndices mN) = 3 * length fs
         \<and> unat (firstIndexNumber (fst (faces (octree mN) ! k))) = 3 * k
         \<and> deleteFace (fst (faces (octree mN) ! k)) mN = Inr m1
         \<and> freeFirstIndexNumbers m1 = {of_nat (3 * k)}
         \<and> addFace f g m1 = Inr (nf, m2)
         \<and> unat (firstIndexNumber nf) = 3 * k
         \<and> unat (numFaces m2) = length fs \<and> unat (numIndices m2) = 3 * length fs"
    if e: "faces (octree m0) = []" "indices (mesh m0) = []" "freeFirstIndexNumbers m0 = {}"
      and fit: "3 * length fs < 2 ^ 32" and k: "k + 1 < length fs"
  proof -
    let ?mN = "m0\<lparr>mesh := (mesh m0)\<lparr>indices := replicate (3 * length fs) 0\<rparr>,
             octree := (octree m0)\<lparr>faces := facesFrom 0 fs\<rparr>\<rparr>"
    let ?fk = "fst (facesFrom 0 fs ! k)"
    have run: "runFaceOps (map (\<lambda>(f, g). AddFace f g) fs) m0 = Inr ?mN"
      using addFaces_run [OF e(3), of fs] e by simp
    have nN: "unat (numIndices ?mN) = 3 * length fs"
      using fit by (simp add: numIndices_def Mesh_numIndices_def unat_uint_3_times)
    have fN: "unat (numFaces ?mN) = length fs"
      using fit by (simp add: numFaces_def Octree_numFaces_def facesFrom_length unat_uint_of_nat)
    have kk: "k < length fs" using k by simp
    have fin: "firstIndexNumber ?fk = of_nat (3 * k)"
      using facesFrom_nth [OF kk, of 0] by simp
    have ufin: "unat (firstIndexNumber ?fk) = 3 * k"
      using fin fit kk by (simp add: unat_uint_3_times)
    have st: "?fk \<in> fst ` set (faces (octree ?mN))"
      using kk by (simp add: facesFrom_length)
    have ge: "3 \<le> 3 * length fs" using k by simp
    have "unat (firstIndexNumber ?fk) \<noteq> 3 * length fs - 3"
      using ufin k by simp
    then have nt: "firstIndexNumber ?fk \<noteq> numIndices ?mN - 3"
      using trailing_iff [OF ge fit, of "firstIndexNumber ?fk"]
      by (simp add: numIndices_def Mesh_numIndices_def)
    let ?ma = "?mN\<lparr>freeFirstIndexNumbers := insert (firstIndexNumber ?fk) (freeFirstIndexNumbers ?mN),
           octree := (octree ?mN)\<lparr>faces := removeFace ?fk (faces (octree ?mN))\<rparr>\<rparr>"
    have del: "deleteFace ?fk ?mN = Inr ?ma"
      using deleteFace_other [OF nt st] .
    have free: "freeFirstIndexNumbers ?ma = {of_nat (3 * k)}"
      using e(3) fin by simp
    then have ne: "freeFirstIndexNumbers ?ma \<noteq> {}" by simp
    let ?nf = "\<lparr>faceEdge = faceEdge f, faceId = faceId f,
            firstIndexNumber = Min (freeFirstIndexNumbers ?ma)\<rparr>"
    let ?mb = "?ma\<lparr>octree := (octree ?ma)\<lparr>faces := faces (octree ?ma) @ [(?nf, g)]\<rparr>,
            freeFirstIndexNumbers := freeFirstIndexNumbers ?ma - {Min (freeFirstIndexNumbers ?ma)}\<rparr>"
    have add: "addFace f g ?ma = Inr (?nf, ?mb)"
      using addFace_reuse [OF ne, of f g] .
    have unf: "unat (firstIndexNumber ?nf) = 3 * k"
      using e(3) fin ufin by simp
    have nb: "unat (numIndices ?mb) = 3 * length fs"
      using nN by (simp add: numIndices_def)
    have "Suc (length (removeFace ?fk (faces (octree ?mN)))) = length (faces (octree ?mN))"
      using removeFace_length [OF st] .
    then have fb: "unat (numFaces ?mb) = length fs"
      using fit by (simp add: numFaces_def Octree_numFaces_def facesFrom_length unat_uint_of_nat)
    from run nN fN ufin del free add unf nb fb show ?thesis
      by (simp del: WingedMesh.simps Octree.simps Mesh.simps WingedFace.simps)
  qed
  from a b c show ?thesis by blast
qed

text \<open>
  With the free offsets 3 and 6 the new face gets the offset 3; without a free offset the
  buffer grows from 3 to 6 entries; and for N = 3, k = 1 the buffer keeps its 9 entries.
\<close>

theorem addFace_slot_reuse_witness:
  "addFace (newFace 5) tri
       (quadMesh (Vec3 0 0 0) [0, 0, 0, 0, 0, 0, 0, 0, 0, 0, 0, 0] [(0, 0), (3, 9)] {6, 3})
     = Inr (\<lparr>faceEdge = None, faceId = 5, firstIndexNumber = 3\<rparr>,
            quadMesh (Vec3 0 0 0) [0, 0, 0, 0, 0, 0, 0, 0, 0, 0, 0, 0] [(0, 0), (3, 9), (5, 3)] {6})
   \<and> addFace (newFace 5) tri (quadMesh (Vec3 0 0 0) [0, 0, 0] [(0, 0)] {})
     = Inr (\<lparr>faceEdge = None, faceId = 5, firstIndexNumber = 3\<rparr>,
            quadMesh (Vec3 0 0 0) [0, 0, 0, 0, 0, 0] [(0, 0), (5, 3)] {})
   \<and> runFaceOps (map (\<lambda>(f, g). AddFace f g)
          [(newFace 0, tri), (newFace 1, tri), (newFace 2, tri)]) (quadMesh (Vec3 0 0 0) [] [] {})
     = Inr (quadMesh (Vec3 0 0 0) [0, 0, 0, 0, 0, 0, 0, 0, 0] [(0, 0), (1, 3), (2, 6)] {})
   \<and> deleteFace \<lparr>faceEdge = None, faceId = 1, firstIndexNumber = 3\<rparr>
        (quadMesh (Vec3 0 0 0) [0, 0, 0, 0, 0, 0, 0, 0, 0] [(0, 0), (1, 3), (2, 6)] {})
     = Inr (quadMesh (Vec3 0 0 0) [0, 0, 0, 0, 0, 0, 0, 0, 0] [(0, 0), (2, 6)] {3})
   \<and> addFace (newFace 5) tri
        (quadMesh (Vec3 0 0 0) [0, 0, 0, 0, 0, 0, 0, 0, 0] [(0, 0), (2, 6)] {3})
     = Inr (\<lparr>faceEdge = None, faceId = 5, firstIndexNumber = 3\<rparr>,
            quadMesh (Vec3 0 0 0) [0, 0, 0, 0, 0, 0, 0, 0, 0] [(0, 0), (2, 6), (5, 3)] {})
   \<and> numIndices (quadMesh (Vec3 0 0 0) [0, 0, 0, 0, 0, 0, 0, 0, 0] [(0, 0), (2, 6), (5, 3)] {}) = 9"
proof -
  let ?two = "quadMesh (Vec3 0 0 0) [0, 0, 0, 0, 0, 0, 0, 0, 0, 0, 0, 0] [(0, 0), (3, 9)] {6, 3}"
  let ?start = "quadMesh (Vec3 0 0 0) [] [] {}"
  let ?fs = "[(newFace 0, tri), (newFace 1, tri), (newFace 2, tri)]"
  have pre: "freeFirstIndexNumbers ?two \<noteq> {} \<and> faces (octree ?start) = []
      \<and> indices (mesh ?start) = [] \<and> freeFirstIndexNumbers ?start = {}
      \<and> 3 * length ?fs < (2 :: nat) ^ 32 \<and> (1 :: nat) + 1 < length ?fs"
    by (simp add: quadMesh_def)
  from addFace_slot_reuse [where m = ?two and f = "newFace 5" and g = tri and ?m0.0 = ?start
      and fs = ?fs and k = 1] pre
  have "(\<exists>nf m'. addFace (newFace 5) tri ?two = Inr (nf, m')
          \<and> firstIndexNumber nf = Min (freeFirstIndexNumbers ?two))
      \<and> (\<exists>mN m1 nf m2. runFaceOps (map (\<lambda>(f, g). AddFace f g) ?fs) ?start = Inr mN
          \<and> deleteFace (fst (faces (octree mN) ! 1)) mN = Inr m1
          \<and> addFace (newFace 5) tri m1 = Inr (nf, m2)
          \<and> unat (numIndices m2) = 3 * length ?fs)"
    by blast
  moreover have "freeFirstIndexNumbers (quadMesh (Vec3 0 0 0) [0, 0, 0] [(0, 0)] {}) = {}"
    by (simp add: quadMesh_def)
  ultimately show ?thesis
    by (simp add: face_op_defs example_defs insert_Diff_if)
qed

section \<open>Deleting a face\<close>




section \<open>Writing the index buffer\<close>

text \<open>
  C3: when the allocator holds a free slot (and 3 times the number of faces fits an
  \<open>unsigned int\<close>), \<open>writeIndices()\<close> returns with the index array holding exactly the
  3 vertex indices of each face, face after face in traversal order: its size is
  \<open>numFaces() * 3\<close>, the faces are the same faces in the same order with the first index
  numbers 0, 3, 6, ..., and the free set is empty. When no slot is free,
  \<open>writeIndices()\<close> returns if every face writes to existing slots (as on every
  consistent mesh) and fails with the assertion of \<open>setIndex\<close> otherwise; when it
  returns, the faces keep their first index numbers, the index array keeps its size, and
  its content is the old one with the writes of the faces applied at their offsets. And
  when \<open>write()\<close> returns, a second \<open>write()\<close> returns the same state: the index buffer
  is identical.
\<close>

theorem writeIndices_repacks:
  "(freeFirstIndexNumbers m \<noteq> {} \<and> 3 * length (faces (octree m)) < 2 ^ 32 \<longrightarrow>
      writeIndices av m =
        Inr (m\<lparr>mesh := (mesh m)\<lparr>indices :=
                   concat (map (\<lambda>(f, g). faceIndices av f) (faces (octree m)))\<rparr>,
              octree := (octree m)\<lparr>faces := facesFrom 0 (faces (octree m))\<rparr>,
              freeFirstIndexNumbers := {}\<rparr>)
      \<and> length (concat (map (\<lambda>(f, g). faceIndices av f) (faces (octree m))))
          = unat (numFaces m * 3)
      \<and> map (firstIndexNumber \<circ> fst) (facesFrom 0 (faces (octree m)))
          = map (\<lambda>j. of_nat (3 * j)) [0..<length (faces (octree m))]
      \<and> map (\<lambda>(f, g). (faceEdge f, faceId f, g)) (facesFrom 0 (faces (octree m)))
          = map (\<lambda>(f, g). (faceEdge f, faceId f, g)) (faces (octree m)))
   \<and> (freeFirstIndexNumbers m = {} \<longrightarrow>
        writeIndices av m =
          (if slotsExist (allFaceWrites av (faces (octree m))) (length (indices (mesh m)))
           then Inr (m\<lparr>mesh := (mesh m)\<lparr>indices :=
                       applyWrites (allFaceWrites av (faces (octree m))) (indices (mesh m))\<rparr>\<rparr>)
           else Inl AssertionFailed)
        \<and> length (applyWrites (allFaceWrites av (faces (octree m))) (indices (mesh m)))
            = length (indices (mesh m))
        \<and> (slotsValid m \<longrightarrow>
              slotsExist (allFaceWrites av (faces (octree m))) (length (indices (mesh m)))))
   \<and> (write_buffers av nrm m = Inr m2 \<longrightarrow> write_buffers av nrm m2 = Inr m2)"
proof -
  have a: "writeIndices av m =
        Inr (m\<lparr>mesh := (mesh m)\<lparr>indices :=
                   concat (map (\<lambda>(f, g). faceIndices av f) (faces (octree m)))\<rparr>,
              octree := (octree m)\<lparr>faces := facesFrom 0 (faces (octree m))\<rparr>,
              freeFirstIndexNumbers := {}\<rparr>)
      \<and> length (concat (map (\<lambda>(f, g). faceIndices av f) (faces (octree m))))
          = unat (numFaces m * 3)"
    if ne: "freeFirstIndexNumbers m \<noteq> {}" and fit: "3 * length (faces (octree m)) < 2 ^ 32"
  proof -
    have "unat (numFaces m * 3) = 3 * length (faces (octree m))"
      using unat_uint_3_times [OF fit]
      by (simp add: numFaces_def Octree_numFaces_def mult.commute)
    with writeIndices_packed [OF ne fit, of av] show ?thesis
      by (simp add: faceIndices_length)
  qed
  have b: "map (firstIndexNumber \<circ> fst) (facesFrom 0 (faces (octree m)))
          = map (\<lambda>j. of_nat (3 * j)) [0..<length (faces (octree m))]"
    using facesFrom_offsets [of 0 "faces (octree m)"] by simp
  from a b writeIndices_inplace [of m av] applyWrites_length slotsValid_slotsExist [of m av]
    facesFrom_same_faces [of 0 "faces (octree m)"] write_again [of av nrm m m2]
  show ?thesis by blast
qed

text \<open>
  The square with the faces 0 at offset 0 and 1 at offset 6 and the free slot 3 is
  repacked; without a free slot the faces at the offsets 3 and 0 are rewritten in place
  and the seventh entry stays; a second \<open>write()\<close> changes nothing.
\<close>

theorem writeIndices_repacks_witness:
  "writeIndices fanIndices (quadMesh (Vec3 0 0 0) [9, 9, 9, 9, 9, 9, 9, 9, 9] [(0, 0), (1, 6)] {3})
     = Inr (quadMesh (Vec3 0 0 0) [0, 1, 2, 0, 2, 3] [(0, 0), (1, 3)] {})
   \<and> writeIndices fanIndices (quadMesh (Vec3 0 0 0) [9, 9, 9, 9, 9, 9, 9] [(0, 3), (1, 0)] {})
     = Inr (quadMesh (Vec3 0 0 0) [0, 2, 3, 0, 1, 2, 9] [(0, 3), (1, 0)] {})
   \<and> write_buffers fanIndices (\<lambda>v. Vec3 0 0 1)
        (quadMesh (Vec3 0 0 0) [9, 9, 9, 9, 9, 9, 9, 9, 9] [(0, 0), (1, 6)] {3})
     = Inr (quadMesh (Vec3 0 0 1) [0, 1, 2, 0, 2, 3] [(0, 0), (1, 3)] {})
   \<and> write_buffers fanIndices (\<lambda>v. Vec3 0 0 1)
        (quadMesh (Vec3 0 0 1) [0, 1, 2, 0, 2, 3] [(0, 0), (1, 3)] {})
     = Inr (quadMesh (Vec3 0 0 1) [0, 1, 2, 0, 2, 3] [(0, 0), (1, 3)] {})"
proof -
  let ?gap = "quadMesh (Vec3 0 0 0) [9, 9, 9, 9, 9, 9, 9, 9, 9] [(0, 0), (1, 6)] {3}"
  let ?full = "quadMesh (Vec3 0 0 0) [9, 9, 9, 9, 9, 9, 9] [(0, 3), (1, 0)] {}"
  let ?packed = "quadMesh (Vec3 0 0 1) [0, 1, 2, 0, 2, 3] [(0, 0), (1, 3)] {}"
  have pre: "freeFirstIndexNumbers ?gap \<noteq> {} \<and> 3 * length (faces (octree ?gap)) < (2 :: nat) ^ 32"
    by (simp add: quadMesh_def)
  have w: "write_buffers fanIndices (\<lambda>v. Vec3 0 0 1) ?gap = Inr ?packed"
    by (simp add: write_defs example_defs)
  from writeIndices_repacks [where m = ?gap and av = fanIndices and nrm = "\<lambda>v. Vec3 0 0 1"
      and ?m2.0 = ?packed] pre w
  have a: "writeIndices fanIndices ?gap =
        Inr (?gap\<lparr>mesh := (mesh ?gap)\<lparr>indices :=
                   concat (map (\<lambda>(f, g). faceIndices fanIndices f) (faces (octree ?gap)))\<rparr>,
              octree := (octree ?gap)\<lparr>faces := facesFrom 0 (faces (octree ?gap))\<rparr>,
              freeFirstIndexNumbers := {}\<rparr>)"
    and c: "write_buffers fanIndices (\<lambda>v. Vec3 0 0 1) ?packed = Inr ?packed"
    by blast+
  have b: "writeIndices fanIndices ?full
      = Inr (quadMesh (Vec3 0 0 0) [0, 2, 3, 0, 1, 2, 9] [(0, 3), (1, 0)] {})"
    by (simp add: write_defs example_defs)
  have "?gap\<lparr>mesh := (mesh ?gap)\<lparr>indices :=
                   concat (map (\<lambda>(f, g). faceIndices fanIndices f) (faces (octree ?gap)))\<rparr>,
              octree := (octree ?gap)\<lparr>faces := facesFrom 0 (faces (octree ?gap))\<rparr>,
              freeFirstIndexNumbers := {}\<rparr>
      = quadMesh (Vec3 0 0 0) [0, 1, 2, 0, 2, 3] [(0, 0), (1, 3)] {}"
    by (simp add: example_defs faceIndices_def)
  with a b c w show ?thesis by simp
qed

section \<open>The precondition of bufferData\<close>

text \<open>
  C4: \<open>bufferData()\<close> asserts that the allocator holds no free index slot. It fails with
  the assertion exactly when the free set is non-empty, and returns (the host-side state
  unchanged) when the free set is empty. Whenever \<open>write()\<close> returns, the free set is
  empty, so inside \<open>writeAndBuffer()\<close> the assertion of \<open>bufferData()\<close> holds.
\<close>

theorem bufferData_precondition:
  "(bufferData m = Inl AssertionFailed \<longleftrightarrow> freeFirstIndexNumbers m \<noteq> {})
   \<and> (freeFirstIndexNumbers m = {} \<longrightarrow> bufferData m = Inr m)
   \<and> (write_buffers av nrm m = Inr m1 \<longrightarrow>
        freeFirstIndexNumbers m1 = {} \<and> bufferData m1 = Inr m1
        \<and> writeAndBuffer av nrm m = Inr m1)"
proof -
  have a: "bufferData m = Inr m" if "freeFirstIndexNumbers m = {}" for m
    using that by (simp add: bufferData_def Mesh_bufferData_def)
  have b: "bufferData m = Inl AssertionFailed" if "freeFirstIndexNumbers m \<noteq> {}"
    using that by (simp add: bufferData_def)
  have c: "freeFirstIndexNumbers m1 = {}" if "write_buffers av nrm m = Inr m1"
    using write_clears [OF that] .
  have d: "writeAndBuffer av nrm m = Inr m1" if "write_buffers av nrm m = Inr m1"
    using that a [OF c [OF that]] by (simp add: writeAndBuffer_def)
  show ?thesis using a [of m] a [of m1] b c d by auto
qed

text \<open>
  A mesh with the free slot 3: \<open>bufferData()\<close> fails on it, \<open>write()\<close> repacks it, and
  \<open>writeAndBuffer()\<close> passes the assertion.
\<close>

theorem bufferData_precondition_witness:
  "bufferData (quadMesh (Vec3 0 0 0) [0, 0, 0, 0, 0, 0, 0, 0, 0] [(0, 0), (1, 6)] {3})
     = Inl AssertionFailed
   \<and> write_buffers fanIndices (\<lambda>v. Vec3 0 0 1)
        (quadMesh (Vec3 0 0 0) [0, 0, 0, 0, 0, 0, 0, 0, 0] [(0, 0), (1, 6)] {3})
     = Inr (quadMesh (Vec3 0 0 1) [0, 1, 2, 0, 2, 3] [(0, 0), (1, 3)] {})
   \<and> writeAndBuffer fanIndices (\<lambda>v. Vec3 0 0 1)
        (quadMesh (Vec3 0 0 0) [0, 0, 0, 0, 0, 0, 0, 0, 0] [(0, 0), (1, 6)] {3})
     = Inr (quadMesh (Vec3 0 0 1) [0, 1, 2, 0, 2, 3] [(0, 0), (1, 3)] {})"
proof -
  let ?m = "quadMesh (Vec3 0 0 0) [0, 0, 0, 0, 0, 0, 0, 0, 0] [(0, 0), (1, 6)] {3}"
  let ?m1 = "quadMesh (Vec3 0 0 1) [0, 1, 2, 0, 2, 3] [(0, 0), (1, 3)] {}"
  have free: "freeFirstIndexNumbers ?m \<noteq> {}"
    by (simp add: quadMesh_def)
  have run: "write_buffers fanIndices (\<lambda>v. Vec3 0 0 1) ?m = Inr ?m1"
    by (simp add: write_defs example_defs)
  from bufferData_precondition [where m = ?m and av = fanIndices and nrm = "\<lambda>v. Vec3 0 0 1"
      and ?m1.0 = ?m1] free run
  show ?thesis by simp
qed

section \<open>Parity of vertex records and buffer positions\<close>

text \<open>
  C5: start from a mesh without vertices and run any sequence of \<open>addVertex\<close> and
  \<open>popVertex\<close>. The sequence runs through exactly when no \<open>popVertex\<close> meets a mesh
  without vertices, and then the number of vertex records equals the number of positions
  in the render buffer. Each \<open>addVertex\<close> appends one vertex record and one buffer position, each
  \<open>popVertex\<close> removes one of each. \<open>numVertices()\<close> asserts the equality before it
  returns the count: for a buffer whose size fits an \<open>unsigned int\<close>, it fails with the
  assertion exactly when the two numbers differ.
\<close>

theorem vertex_buffer_parity:
  "(vertices m0 = [] \<and> positions (mesh m0) = [] \<and> runVertexOps ops m0 = Inr m \<longrightarrow>
      length (vertices m) = length (positions (mesh m))
      \<and> (length (vertices m) < 2 ^ 32 \<longrightarrow> numVertices m = Inr (of_nat (length (vertices m)))))
   \<and> (vertices m0 = [] \<and> positions (mesh m0) = [] \<longrightarrow>
        (\<exists>m'. runVertexOps ops m0 = Inr m') = popsAllowed 0 ops)
   \<and> length (vertices (snd (addVertex v m1))) = length (vertices m1) + 1
   \<and> length (positions (mesh (snd (addVertex v m1)))) = length (positions (mesh m1)) + 1
   \<and> (popVertex m1 = Inr m2 \<longrightarrow>
        length (vertices m2) + 1 = length (vertices m1)
        \<and> length (positions (mesh m2)) + 1 = length (positions (mesh m1)))
   \<and> (length (positions (mesh m1)) < 2 ^ 32 \<longrightarrow>
        (numVertices m1 = Inl AssertionFailed
           \<longleftrightarrow> length (vertices m1) \<noteq> length (positions (mesh m1)))
        \<and> (length (vertices m1) = length (positions (mesh m1))
           \<longrightarrow> numVertices m1 = Inr (of_nat (length (vertices m1)))))"
proof -
  have a: "length (vertices m) = length (positions (mesh m))"
    if "vertices m0 = []" "positions (mesh m0) = []" "runVertexOps ops m0 = Inr m"
    using runVertexOps_parity [OF that(3)] that(1,2) by simp
  have b: "numVertices m = Inr (of_nat (length (vertices m)))"
    if "length (vertices m) = length (positions (mesh m))" "length (vertices m) < 2 ^ 32" for m
    using numVertices_checks [of m] that by simp
  have c: "(numVertices m1 = Inl AssertionFailed)
      = (length (vertices m1) \<noteq> length (positions (mesh m1)))"
    if "length (positions (mesh m1)) < 2 ^ 32"
    using numVertices_checks [OF that] by simp
  have d: "(\<exists>m'. runVertexOps ops m0 = Inr m') = popsAllowed 0 ops"
    if "vertices m0 = []" "positions (mesh m0) = []"
    using runVertexOps_returns [of m0 0 ops] that by simp
  show ?thesis
    using a b c d addVertex_lengths [of v m1] popVertex_lengths [of m1 m2] by simp
qed

text \<open>Four vertices added to a new mesh, one popped, one added again.\<close>

theorem vertex_buffer_parity_witness:
  "runVertexOps
     [AddVertex (Vec3 0 0 0), AddVertex (Vec3 1 0 0), AddVertex (Vec3 1 1 0),
      AddVertex (Vec3 2 2 2), PopVertex, AddVertex (Vec3 0 1 0)] (WingedMesh_Impl 0)
     = Inr (quadMesh (Vec3 0 0 0) [] [] {})
   \<and> length (vertices (quadMesh (Vec3 0 0 0) [] [] {})) = 4
   \<and> length (positions (mesh (quadMesh (Vec3 0 0 0) [] [] {}))) = 4
   \<and> numVertices (quadMesh (Vec3 0 0 0) [] [] {}) = Inr 4"
proof -
  let ?ops = "[AddVertex (Vec3 0 0 0), AddVertex (Vec3 1 0 0), AddVertex (Vec3 1 1 0),
      AddVertex (Vec3 2 2 2), PopVertex, AddVertex (Vec3 0 1 0)]"
  let ?m = "quadMesh (Vec3 0 0 0) [] [] {}"
  have run: "runVertexOps ?ops (WingedMesh_Impl 0) = Inr ?m"
    by (simp add: example_defs addVertex_def Mesh_addVertex_def popVertex_def
        Mesh_popVertex_def Let_def)
  have e: "vertices (WingedMesh_Impl 0) = [] \<and> positions (mesh (WingedMesh_Impl 0)) = []"
    by (simp add: WingedMesh_Impl_def)
  have l: "length (vertices ?m) = 4"
    by (simp add: quadMesh_def)
  from vertex_buffer_parity [where ?m0.0 = "WingedMesh_Impl 0" and ops = ?ops and m = ?m] e run l
  have "length (positions (mesh ?m)) = 4 \<and> numVertices ?m = Inr 4" by simp
  with run l show ?thesis by simp
qed

section \<open>Adding a face and deleting it again\<close>

text \<open>
  C6, as the code has it: \<open>addFace\<close> always returns, and \<open>deleteFace\<close> on the face it
  returned restores \<open>numFaces()\<close>. It restores \<open>numIndices()\<close>, the render buffer and the
  free set when the free set was empty or its smallest offset was not
  \<open>numIndices() - 3\<close>. When the smallest free offset was \<open>numIndices() - 3\<close>, the new face
  is the trailing one: deleting it shrinks the buffer by 3, and the offset is gone from
  the free set.
\<close>

theorem addFace_deleteFace_round_trip:
  "\<exists>nf m1. addFace f g m = Inr (nf, m1)
     \<and> (freeFirstIndexNumbers m = {} \<or> Min (freeFirstIndexNumbers m) \<noteq> numIndices m - 3 \<longrightarrow>
          (\<exists>m2. deleteFace nf m1 = Inr m2 \<and> numFaces m2 = numFaces m
              \<and> numIndices m2 = numIndices m \<and> mesh m2 = mesh m
              \<and> freeFirstIndexNumbers m2 = freeFirstIndexNumbers m))
     \<and> (freeFirstIndexNumbers m \<noteq> {} \<and> Min (freeFirstIndexNumbers m) = numIndices m - 3
          \<and> 3 \<le> length (indices (mesh m)) \<longrightarrow>
          (\<exists>m2. deleteFace nf m1 = Inr m2 \<and> numFaces m2 = numFaces m
              \<and> length (indices (mesh m2)) + 3 = length (indices (mesh m))
              \<and> freeFirstIndexNumbers m2 = freeFirstIndexNumbers m - {Min (freeFirstIndexNumbers m)}))"
proof (cases "freeFirstIndexNumbers m = {}")
  case True
  let ?nf = "\<lparr>faceEdge = faceEdge f, faceId = faceId f, firstIndexNumber = numIndices m\<rparr>"
  let ?ma = "m\<lparr>mesh := (mesh m)\<lparr>indices := indices (mesh m) @ [0, 0, 0]\<rparr>,
            octree := (octree m)\<lparr>faces := faces (octree m) @ [(?nf, g)]\<rparr>\<rparr>"
  have a: "addFace f g m = Inr (?nf, ?ma)"
    using addFace_grow [OF True] by simp
  have t: "firstIndexNumber ?nf = numIndices ?ma - 3"
    by (simp add: numIndices_def Mesh_numIndices_def)
  have st: "?nf \<in> fst ` set (faces (octree ?ma))"
    by (simp add: image_iff)
  have ge: "3 \<le> length (indices (mesh ?ma))"
    by simp
  have len: "Suc (length (removeFace ?nf (faces (octree ?ma)))) = length (faces (octree ?ma))"
    using removeFace_length [OF st] .
  have "\<exists>m2. deleteFace ?nf ?ma = Inr m2 \<and> numFaces m2 = numFaces m
      \<and> numIndices m2 = numIndices m \<and> mesh m2 = mesh m
      \<and> freeFirstIndexNumbers m2 = freeFirstIndexNumbers m"
    using deleteFace_trailing [OF t ge st] len
    by (simp add: numFaces_def Octree_numFaces_def numIndices_def)
  with a True show ?thesis by blast
next
  case False
  let ?x = "Min (freeFirstIndexNumbers m)"
  let ?nf = "\<lparr>faceEdge = faceEdge f, faceId = faceId f, firstIndexNumber = ?x\<rparr>"
  let ?ma = "m\<lparr>octree := (octree m)\<lparr>faces := faces (octree m) @ [(?nf, g)]\<rparr>,
            freeFirstIndexNumbers := freeFirstIndexNumbers m - {?x}\<rparr>"
  have a: "addFace f g m = Inr (?nf, ?ma)"
    using addFace_reuse [OF False] by simp
  have x: "?x \<in> freeFirstIndexNumbers m"
    using False by (simp add: Min_in)
  have st: "?nf \<in> fst ` set (faces (octree ?ma))"
    by (simp add: image_iff)
  have len: "Suc (length (removeFace ?nf (faces (octree ?ma)))) = length (faces (octree ?ma))"
    using removeFace_length [OF st] .
  have n: "numIndices ?ma = numIndices m"
    by (simp add: numIndices_def)
  have other: "\<exists>m2. deleteFace ?nf ?ma = Inr m2 \<and> numFaces m2 = numFaces m
      \<and> numIndices m2 = numIndices m \<and> mesh m2 = mesh m
      \<and> freeFirstIndexNumbers m2 = freeFirstIndexNumbers m"
    if "?x \<noteq> numIndices m - 3"
  proof -
    from that n have t: "firstIndexNumber ?nf \<noteq> numIndices ?ma - 3" by simp
    from deleteFace_other [OF t st] len x show ?thesis
      by (simp add: numFaces_def Octree_numFaces_def numIndices_def insert_absorb)
  qed
  have trailing: "\<exists>m2. deleteFace ?nf ?ma = Inr m2 \<and> numFaces m2 = numFaces m
      \<and> length (indices (mesh m2)) + 3 = length (indices (mesh m))
      \<and> freeFirstIndexNumbers m2 = freeFirstIndexNumbers m - {?x}"
    if "?x = numIndices m - 3" "3 \<le> length (indices (mesh m))"
  proof -
    from that(1) n have t: "firstIndexNumber ?nf = numIndices ?ma - 3" by simp
    from that(2) have ge: "3 \<le> length (indices (mesh ?ma))" by simp
    from deleteFace_trailing [OF t ge st] len that(2) show ?thesis
      by (simp add: numFaces_def Octree_numFaces_def)
  qed
  from a False other trailing show ?thesis by blast
qed

text \<open>
  The mesh of the counterexample above (6 indices, free offset 3): after \<open>addFace\<close> and
  \<open>deleteFace\<close> it has 3 indices and no free offset.
\<close>

theorem addFace_deleteFace_round_trip_counterexample:
  "runFaceOps [AddFace (newFace 0) tri, AddFace (newFace 1) tri, AddFace (newFace 2) tri,
               DeleteFace 1, DeleteFace 2] (quadMesh (Vec3 0 0 0) [] [] {})
     = Inr (quadMesh (Vec3 0 0 0) [0, 0, 0, 0, 0, 0] [(0, 0)] {3})
   \<and> addFace (newFace 5) tri (quadMesh (Vec3 0 0 0) [0, 0, 0, 0, 0, 0] [(0, 0)] {3})
     = Inr (\<lparr>faceEdge = None, faceId = 5, firstIndexNumber = 3\<rparr>,
            quadMesh (Vec3 0 0 0) [0, 0, 0, 0, 0, 0] [(0, 0), (5, 3)] {})
   \<and> deleteFace \<lparr>faceEdge = None, faceId = 5, firstIndexNumber = 3\<rparr>
        (quadMesh (Vec3 0 0 0) [0, 0, 0, 0, 0, 0] [(0, 0), (5, 3)] {})
     = Inr (quadMesh (Vec3 0 0 0) [0, 0, 0] [(0, 0)] {})
   \<and> numIndices (quadMesh (Vec3 0 0 0) [0, 0, 0, 0, 0, 0] [(0, 0)] {3}) = 6
   \<and> numIndices (quadMesh (Vec3 0 0 0) [0, 0, 0] [(0, 0)] {}) = 3
   \<and> freeFirstIndexNumbers (quadMesh (Vec3 0 0 0) [0, 0, 0, 0, 0, 0] [(0, 0)] {3}) = {3}
   \<and> freeFirstIndexNumbers (quadMesh (Vec3 0 0 0) [0, 0, 0] [(0, 0)] {}) = {}"
  by (simp add: face_op_defs example_defs)

theorem addFace_deleteFace_round_trip_witness:
  "addFace (newFace 5) tri (quadMesh (Vec3 0 0 0) [0, 0, 0, 0, 0, 0, 0, 0, 0] [(0, 0), (2, 6)] {3})
     = Inr (\<lparr>faceEdge = None, faceId = 5, firstIndexNumber = 3\<rparr>,
            quadMesh (Vec3 0 0 0) [0, 0, 0, 0, 0, 0, 0, 0, 0] [(0, 0), (2, 6), (5, 3)] {})
   \<and> deleteFace \<lparr>faceEdge = None, faceId = 5, firstIndexNumber = 3\<rparr>
        (quadMesh (Vec3 0 0 0) [0, 0, 0, 0, 0, 0, 0, 0, 0] [(0, 0), (2, 6), (5, 3)] {})
     = Inr (quadMesh (Vec3 0 0 0) [0, 0, 0, 0, 0, 0, 0, 0, 0] [(0, 0), (2, 6)] {3})
   \<and> addFace (newFace 5) tri (quadMesh (Vec3 0 0 0) [0, 0, 0] [(0, 0)] {})
     = Inr (\<lparr>faceEdge = None, faceId = 5, firstIndexNumber = 3\<rparr>,
            quadMesh (Vec3 0 0 0) [0, 0, 0, 0, 0, 0] [(0, 0), (5, 3)] {})
   \<and> deleteFace \<lparr>faceEdge = None, faceId = 5, firstIndexNumber = 3\<rparr>
        (quadMesh (Vec3 0 0 0) [0, 0, 0, 0, 0, 0] [(0, 0), (5, 3)] {})
     = Inr (quadMesh (Vec3 0 0 0) [0, 0, 0] [(0, 0)] {})"
proof -
  let ?m = "quadMesh (Vec3 0 0 0) [0, 0, 0, 0, 0, 0, 0, 0, 0] [(0, 0), (2, 6)] {3}"
  let ?n = "quadMesh (Vec3 0 0 0) [0, 0, 0] [(0, 0)] {}"
  have pm: "freeFirstIndexNumbers ?m = {} \<or> Min (freeFirstIndexNumbers ?m) \<noteq> numIndices ?m - 3"
    by (simp add: face_op_defs example_defs)
  have pn: "freeFirstIndexNumbers ?n = {} \<or> Min (freeFirstIndexNumbers ?n) \<noteq> numIndices ?n - 3"
    by (simp add: face_op_defs example_defs)
  from addFace_deleteFace_round_trip [where f = "newFace 5" and g = tri and m = ?m] pm
  have "\<exists>nf m1 m2. addFace (newFace 5) tri ?m = Inr (nf, m1) \<and> deleteFace nf m1 = Inr m2
      \<and> freeFirstIndexNumbers m2 = freeFirstIndexNumbers ?m"
    by blast
  moreover from addFace_deleteFace_round_trip [where f = "newFace 5" and g = tri and m = ?n] pn
  have "\<exists>nf m1 m2. addFace (newFace 5) tri ?n = Inr (nf, m1) \<and> deleteFace nf m1 = Inr m2
      \<and> freeFirstIndexNumbers m2 = freeFirstIndexNumbers ?n"
    by blast
  moreover have "addFace (newFace 5) tri ?m
     = Inr (\<lparr>faceEdge = None, faceId = 5, firstIndexNumber = 3\<rparr>,
            quadMesh (Vec3 0 0 0) [0, 0, 0, 0, 0, 0, 0, 0, 0] [(0, 0), (2, 6), (5, 3)] {})
   \<and> deleteFace \<lparr>faceEdge = None, faceId = 5, firstIndexNumber = 3\<rparr>
        (quadMesh (Vec3 0 0 0) [0, 0, 0, 0, 0, 0, 0, 0, 0] [(0, 0), (2, 6), (5, 3)] {})
     = Inr ?m
   \<and> addFace (newFace 5) tri ?n
     = Inr (\<lparr>faceEdge = None, faceId = 5, firstIndexNumber = 3\<rparr>,
            quadMesh (Vec3 0 0 0) [0, 0, 0, 0, 0, 0] [(0, 0), (5, 3)] {})
   \<and> deleteFace \<lparr>faceEdge = None, faceId = 5, firstIndexNumber = 3\<rparr>
        (quadMesh (Vec3 0 0 0) [0, 0, 0, 0, 0, 0] [(0, 0), (5, 3)] {})
     = Inr ?n"
    by (simp add: face_op_defs example_defs)
  ultimately show ?thesis by blast
qed

section \<open>Ray intersection queries\<close>

text \<open>
  C7, as the code has it: a ray query has no failure branch and returns no new mesh
  state. \<open>WingedMesh::intersects\<close> returns true exactly when some face of the mesh is hit,
  and on a miss returns false and leaves the output intersection as it was.
  \<open>Scene::intersects\<close> returns whether the output intersection holds a hit after the
  meshes were queried: for an output intersection that holds no hit on entry this is
  true exactly when the mode is \<open>Freeform\<close> and some face of some mesh is hit; when no
  face is hit the output is left as it was and the result is what it held on entry.
\<close>

theorem ray_intersection:
  "fst (intersects hit ray i m) = meshHit hit ray m
   \<and> (\<not> meshHit hit ray m \<longrightarrow> intersects hit ray i m = (False, i))
   \<and> (\<not> isIntersection i \<longrightarrow>
        fst (Scene_intersects_mode hit t ray i s) = (t = Freeform \<and> sceneHit hit ray s))
   \<and> (\<not> (t = Freeform \<and> sceneHit hit ray s) \<longrightarrow>
        Scene_intersects_mode hit t ray i s = (isIntersection i, i))
   \<and> Scene_intersects hit ray i s = Scene_intersects_mode hit (selectionMode s) ray i s"
  using intersects_result [of hit ray i m]
    Scene_intersects_loop_result [of hit ray "wingedMeshes s" i]
  by (auto simp: Scene_intersects_mode_def Scene_intersects_def sceneHit_def Let_def)

text \<open>
  No face is hit, and the output intersection still holds the hit of an earlier query:
  the scene answers true.
\<close>

theorem ray_intersection_counterexample:
  "Scene_intersects hitsNothing downRay earlierHit quadScene = (True, earlierHit)
   \<and> \<not> sceneHit hitsNothing downRay quadScene"
  by (simp add: Scene_intersects_def Scene_intersects_mode_def intersects_def
      Octree_intersects_def sceneHit_def meshHit_def quadScene_def quadMesh_def
      hitsNothing_def earlierHit_def)

text \<open>With a new output intersection: the hit on face 0 at distance 2, and the miss.\<close>

theorem ray_intersection_witness:
  "Scene_intersects hitsTri downRay WingedFaceIntersection_new quadScene
     = (True, \<lparr>isIntersection = True, distance = 2, position = Vec3 0 0 0, hitMesh = 0,
               hitFace = 0\<rparr>)
   \<and> Scene_intersects hitsNothing downRay WingedFaceIntersection_new quadScene
     = (False, WingedFaceIntersection_new)
   \<and> intersects hitsNothing downRay earlierHit (quadMesh (Vec3 0 0 0) [0, 1, 2] [(0, 0)] {})
     = (False, earlierHit)"
proof -
  have fresh: "\<not> isIntersection WingedFaceIntersection_new"
    by (simp add: WingedFaceIntersection_new_def)
  have miss: "\<not> meshHit hitsNothing downRay (quadMesh (Vec3 0 0 0) [0, 1, 2] [(0, 0)] {})
      \<and> \<not> (selectionMode quadScene = Freeform \<and> sceneHit hitsNothing downRay quadScene)"
    by (simp add: sceneHit_def meshHit_def quadScene_def quadMesh_def hitsNothing_def)
  from ray_intersection [where hit = hitsNothing and ray = downRay and i = earlierHit
      and m = "quadMesh (Vec3 0 0 0) [0, 1, 2] [(0, 0)] {}"] miss
  have a: "intersects hitsNothing downRay earlierHit (quadMesh (Vec3 0 0 0) [0, 1, 2] [(0, 0)] {})
      = (False, earlierHit)"
    by blast
  from ray_intersection [where hit = hitsNothing and ray = downRay
      and i = WingedFaceIntersection_new and s = quadScene and t = "selectionMode quadScene"]
    miss fresh
  have b: "Scene_intersects hitsNothing downRay WingedFaceIntersection_new quadScene
      = (False, WingedFaceIntersection_new)"
    by simp
  have c: "Scene_intersects hitsTri downRay WingedFaceIntersection_new quadScene
     = (True, \<lparr>isIntersection = True, distance = 2, position = Vec3 0 0 0, hitMesh = 0,
               hitFace = 0\<rparr>)"
    by (simp add: Scene_intersects_def Scene_intersects_mode_def intersects_def
        Octree_intersects_def quadScene_def quadMesh_def hitsTri_def
        WingedFaceIntersection_new_def WingedFaceIntersection_update_def)
  from a b c show ?thesis by simp
qed

section \<open>Empty state after reset\<close>

text \<open>
  C8: after \<open>reset()\<close>, whatever the mesh held before, \<open>isEmpty()\<close> returns true and
  \<open>numVertices()\<close>, \<open>numEdges()\<close>, \<open>numFaces()\<close> and \<open>numIndices()\<close> all return 0; the
  assertion inside \<open>numVertices()\<close> passes.
\<close>

theorem reset_is_empty:
  "isEmpty (reset m) = Inr True \<and> numVertices (reset m) = Inr 0 \<and> numEdges (reset m) = 0
   \<and> numFaces (reset m) = 0 \<and> numIndices (reset m) = 0"
  by (simp add: isEmpty_def count_defs reset_def Mesh_reset_def Octree_reset_def)

section \<open>Lookups that may miss\<close>

text \<open>
  C9: \<open>vertexSLOW(index)\<close>, \<open>edgeSLOW(id)\<close> and \<open>face(id)\<close> return null (\<open>None\<close>) exactly
  when no stored element has the given identity, and otherwise a stored element with
  that identity. \<open>vertexSLOW\<close> and \<open>edgeSLOW\<close> scan the stored list from the front and
  return the first match; \<open>face\<close> asks the octree. None of them has a failure branch.
\<close>

theorem lookup_by_id:
  "vertexSLOW i m = find (\<lambda>v. vertexIndex v = i) (vertices m)
   \<and> edgeSLOW j m = find (\<lambda>e. edgeId e = j) (edges m)
   \<and> (vertexSLOW i m = None \<longleftrightarrow> (\<forall>v \<in> set (vertices m). vertexIndex v \<noteq> i))
   \<and> (edgeSLOW j m = None \<longleftrightarrow> (\<forall>e \<in> set (edges m). edgeId e \<noteq> j))
   \<and> (face j m = None \<longleftrightarrow> (\<forall>f \<in> fst ` set (faces (octree m)). faceId f \<noteq> j))
   \<and> (\<forall>v. vertexSLOW i m = Some v \<longrightarrow> v \<in> set (vertices m) \<and> vertexIndex v = i)
   \<and> (\<forall>e. edgeSLOW j m = Some e \<longrightarrow> e \<in> set (edges m) \<and> edgeId e = j)
   \<and> (\<forall>f. face j m = Some f \<longrightarrow> f \<in> fst ` set (faces (octree m)) \<and> faceId f = j)"
  unfolding vertexSLOW_def edgeSLOW_def face_def Octree_face_def
    vertexSLOW_scan_find edgeSLOW_scan_find
  by (auto simp: find_None_iff find_Some_iff)

text \<open>
  On the square with the faces 0 and 1 and the edge 7: the vertex 2, the edge 7 and the
  face 1 are found, the vertex 9, the edge 8 and the face 5 are not.
\<close>

theorem lookup_by_id_witness:
  "vertexSLOW 2 ((quadMesh (Vec3 0 0 0) [] [(0, 0), (1, 3)] {})\<lparr>edges := [boundaryEdge 7]\<rparr>)
     = Some \<lparr>vertexIndex = 2, vertexEdge = None\<rparr>
   \<and> edgeSLOW 7 ((quadMesh (Vec3 0 0 0) [] [(0, 0), (1, 3)] {})\<lparr>edges := [boundaryEdge 7]\<rparr>)
     = Some (boundaryEdge 7)
   \<and> face 1 ((quadMesh (Vec3 0 0 0) [] [(0, 0), (1, 3)] {})\<lparr>edges := [boundaryEdge 7]\<rparr>)
     = Some \<lparr>faceEdge = None, faceId = 1, firstIndexNumber = 3\<rparr>
   \<and> vertexSLOW 9 ((quadMesh (Vec3 0 0 0) [] [(0, 0), (1, 3)] {})\<lparr>edges := [boundaryEdge 7]\<rparr>)
     = None
   \<and> edgeSLOW 8 ((quadMesh (Vec3 0 0 0) [] [(0, 0), (1, 3)] {})\<lparr>edges := [boundaryEdge 7]\<rparr>)
     = None
   \<and> face 5 ((quadMesh (Vec3 0 0 0) [] [(0, 0), (1, 3)] {})\<lparr>edges := [boundaryEdge 7]\<rparr>)
     = None"
proof -
  let ?m = "(quadMesh (Vec3 0 0 0) [] [(0, 0), (1, 3)] {})\<lparr>edges := [boundaryEdge 7]\<rparr>"
  have hit: "vertexSLOW 2 ?m = Some \<lparr>vertexIndex = 2, vertexEdge = None\<rparr>
      \<and> edgeSLOW 7 ?m = Some (boundaryEdge 7)
      \<and> face 1 ?m = Some \<lparr>faceEdge = None, faceId = 1, firstIndexNumber = 3\<rparr>"
    by (simp add: quadMesh_def boundaryEdge_def vertexSLOW_def edgeSLOW_def face_def
        Octree_face_def)
  have miss: "(\<forall>v \<in> set (vertices ?m). vertexIndex v \<noteq> 9)
      \<and> (\<forall>f \<in> fst ` set (faces (octree ?m)). faceId f \<noteq> 5)"
    by (simp add: quadMesh_def)
  have miss_edge: "\<forall>e \<in> set (edges ?m). edgeId e \<noteq> 8"
    by (simp add: quadMesh_def boundaryEdge_def)
  from lookup_by_id [where i = 9 and m = ?m and j = 5] miss
  have "vertexSLOW 9 ?m = None \<and> face 5 ?m = None" by blast
  moreover from lookup_by_id [where i = 9 and m = ?m and j = 8] miss_edge
  have "edgeSLOW 8 ?m = None" by blast
  ultimately show ?thesis using hit by simp
qed

section \<open>isEmpty and the edge list\<close>



end
